theory Spec2Isabelle
  imports Complex_Main "HOL-Library.Word"
begin

section \<open>Spendora: the price normalization and estimation engine\<close>

text \<open>
  The development follows the TypeScript sources of the scraper
  (\<^verbatim>\<open>simpleProductScraper\<close>), of the market data generator (\<^verbatim>\<open>realMarketDataAPI\<close>) and of the
  scraping service (\<^verbatim>\<open>productScrapingService\<close>).

  Conventions of the embedding.
  \<^item> A JavaScript string is the list of its UTF-16 code units, each a natural number.
  \<^item> A JavaScript number is a real number: arithmetic is exact, \<^verbatim>\<open>Math.sin\<close> is the real
    sine, and \<^verbatim>\<open>NaN\<close> is made explicit as \<open>None\<close> at the one place where the source
    tests for it (the result of \<^verbatim>\<open>parseFloat\<close>). The discount calculator is the
    exception: its percentage depends on how each operation rounds, so that its operations
    are those of IEEE 754 double precision (\<open>fl64\<close>).
  \<^item> \<^verbatim>\<open>undefined\<close> and \<^verbatim>\<open>null\<close> are \<open>None\<close>; a thrown error is \<open>None\<close> as well, in the
    functions that can throw.
  \<^item> The network, \<^verbatim>\<open>Math.random\<close>, the \<^verbatim>\<open>URL\<close> class and the pages loaded by cheerio are
    parameters of the model (the record \<open>host\<close>), so that every statement holds for every
    behaviour of theirs.
  \<^item> Calls of \<^verbatim>\<open>console.log\<close> are left out.
\<close>

subsection \<open>Strings\<close>

type_synonym jsstring = "nat list"

text \<open>An ASCII literal of the source, as code units.\<close>

definition lit :: "string \<Rightarrow> jsstring" where
  "lit s = map of_char s"

text \<open>The rupee sign U+20B9 and the Devanagari letter U+0932 occur in the patterns.\<close>

definition rupee :: nat where
  "rupee = 8377"

definition deva_la :: nat where
  "deva_la = 2354"

definition is_digit :: "nat \<Rightarrow> bool" where
  "is_digit c = (48 \<le> c \<and> c \<le> 57)"

text \<open>
  White space as \<^verbatim>\<open>\s\<close> and \<^verbatim>\<open>String.prototype.trim\<close> understand it: the white space
  and line terminator code points of ECMAScript.
\<close>

definition js_space :: "nat \<Rightarrow> bool" where
  "js_space c = (c \<in> {9, 10, 11, 12, 13, 32, 160, 5760, 8232, 8233, 8239, 8287, 12288, 65279}
     \<or> (8192 \<le> c \<and> c \<le> 8202))"

definition trim :: "jsstring \<Rightarrow> jsstring" where
  "trim s = rev (dropWhile js_space (rev (dropWhile js_space s)))"

text \<open>
  \<^verbatim>\<open>toUpperCase\<close> and \<^verbatim>\<open>toLowerCase\<close> on the letters A to Z; every other code unit is
  left as it is (the case mapping of the host beyond ASCII is not reproduced).
\<close>

definition upper_cu :: "nat \<Rightarrow> nat" where
  "upper_cu c = (if 97 \<le> c \<and> c \<le> 122 then c - 32 else c)"

definition lower_cu :: "nat \<Rightarrow> nat" where
  "lower_cu c = (if 65 \<le> c \<and> c \<le> 90 then c + 32 else c)"

definition toUpperCase :: "jsstring \<Rightarrow> jsstring" where
  "toUpperCase s = map upper_cu s"

definition toLowerCase :: "jsstring \<Rightarrow> jsstring" where
  "toLowerCase s = map lower_cu s"

fun startsWith :: "jsstring \<Rightarrow> jsstring \<Rightarrow> bool" where
  "startsWith s [] = True"
| "startsWith [] (p # ps) = False"
| "startsWith (c # cs) (p # ps) = (c = p \<and> startsWith cs ps)"

text \<open>\<^verbatim>\<open>s.includes(sub)\<close>: \<open>sub\<close> occurs in \<open>s\<close> at some position.\<close>

fun includes_js :: "jsstring \<Rightarrow> jsstring \<Rightarrow> bool" where
  "includes_js [] sub = (sub = [])"
| "includes_js (c # cs) sub = (startsWith (c # cs) sub \<or> includes_js cs sub)"

subsection \<open>Regular expressions\<close>

text \<open>
  The patterns of the source use character classes, sequencing, the greedy quantifiers
  \<^verbatim>\<open>?\<close>, \<^verbatim>\<open>*\<close>, \<^verbatim>\<open>+\<close>, \<^verbatim>\<open>{1,2}\<close> and one capture group each. \<open>ms r s\<close> lists, in the
  order in which a backtracking matcher tries them, the remainders of \<open>s\<close> after each way of
  matching \<open>r\<close> at its start: a greedy quantifier tries the longer match first.
\<close>

datatype rx = Sym "nat \<Rightarrow> bool" | Cat rx rx | Opt rx | Star rx | Eps

primrec iter :: "nat \<Rightarrow> (jsstring \<Rightarrow> jsstring list) \<Rightarrow> jsstring \<Rightarrow> jsstring list" where
  "iter 0 f s = [s]"
| "iter (Suc n) f s =
     concat (map (iter n f) (filter (\<lambda>t. length t < length s) (f s))) @ [s]"

primrec ms :: "rx \<Rightarrow> jsstring \<Rightarrow> jsstring list" where
  "ms (Sym p) s = (case s of [] \<Rightarrow> [] | c # cs \<Rightarrow> if p c then [cs] else [])"
| "ms (Cat a b) s = concat (map (ms b) (ms a s))"
| "ms (Opt a) s = ms a s @ [s]"
| "ms (Star a) s = iter (length s) (ms a) s"
| "ms Eps s = [s]"

definition Plus :: "rx \<Rightarrow> rx" where
  "Plus r = Cat r (Star r)"

text \<open>A literal character, and a letter under the flag \<^verbatim>\<open>i\<close>.\<close>

definition Chr :: "nat \<Rightarrow> rx" where
  "Chr c = Sym (\<lambda>x. x = c)"

definition Ci :: "char \<Rightarrow> rx" where
  "Ci l = Sym (\<lambda>x. upper_cu x = upper_cu (of_char l))"

text \<open>
  A pattern with one capture group is written as the part before the group, the group and
  the part after it. \<open>match_here\<close> is the first successful way to match at the start of
  the text, \<open>match_rx\<close> is \<^verbatim>\<open>text.match(pattern)\<close> without the flag \<^verbatim>\<open>g\<close>: the leftmost
  match. Both return the text of the group.
\<close>

record regex =
  before :: rx
  group :: rx
  after :: rx

definition match_here :: "regex \<Rightarrow> jsstring \<Rightarrow> jsstring option" where
  "match_here p s =
     (case concat (map (\<lambda>r1. concat (map (\<lambda>r2. map (\<lambda>r3. take (length r1 - length r2) r1)
                                                 (ms (after p) r2))
                                       (ms (group p) r1)))
                       (ms (before p) s)) of
        [] \<Rightarrow> None
      | g # _ \<Rightarrow> Some g)"

fun match_rx :: "regex \<Rightarrow> jsstring \<Rightarrow> jsstring option" where
  "match_rx p [] = match_here p []"
| "match_rx p (c # cs) =
     (case match_here p (c # cs) of Some g \<Rightarrow> Some g | None \<Rightarrow> match_rx p cs)"

text \<open>The characters that a pattern can consume.\<close>

fun alphabet :: "rx \<Rightarrow> nat \<Rightarrow> bool" where
  "alphabet (Sym p) c = p c"
| "alphabet (Cat a b) c = (alphabet a c \<or> alphabet b c)"
| "alphabet (Opt a) c = alphabet a c"
| "alphabet (Star a) c = alphabet a c"
| "alphabet Eps c = False"

subsection \<open>The price text normalizer\<close>

text \<open>
  \<^verbatim>\<open>parseFloat\<close> on the text of a capture group with the commas removed. Such a text
  consists of digits and dots only (lemma \<open>parsed_text_digits_and_dots\<close> below); on it
  \<^verbatim>\<open>parseFloat\<close> reads the longest prefix of the
  form \<^verbatim>\<open>digits\<close>, \<^verbatim>\<open>digits.digits\<close>, \<^verbatim>\<open>digits.\<close> or \<^verbatim>\<open>.digits\<close> and yields \<^verbatim>\<open>NaN\<close> when there
  is none.
\<close>

definition digits_value :: "jsstring \<Rightarrow> nat" where
  "digits_value ds = foldl (\<lambda>a c. 10 * a + (c - 48)) 0 ds"

definition parseFloat :: "jsstring \<Rightarrow> real option" where
  "parseFloat s =
     (let ip = takeWhile is_digit s; rest = dropWhile is_digit s;
          fp = (case rest of [] \<Rightarrow> [] | c # r \<Rightarrow> if c = 46 then takeWhile is_digit r else [])
      in if ip = [] \<and> fp = [] then None
         else Some (real (digits_value ip) + real (digits_value fp) / 10 ^ length fp))"

text \<open>
  The character class of the cleaning step,
  \<^verbatim>\<open>/[^\d\.,\u20B9Rs KLCrore lakhlac]/gi\<close> (the rupee sign written \<^verbatim>\<open>\u20B9\<close>): what
  it does not match is kept.
\<close>

definition kept :: "nat \<Rightarrow> bool" where
  "kept c = (is_digit c \<or> c = 46 \<or> c = 44 \<or> c = rupee \<or> c = 32
     \<or> upper_cu c \<in> of_char ` set ''RSKLCOEAH'')"

definition digit_or_comma :: "nat \<Rightarrow> bool" where
  "digit_or_comma c = (is_digit c \<or> c = 44)"

definition digit_or_dot :: "nat \<Rightarrow> bool" where
  "digit_or_dot c = (is_digit c \<or> c = 46)"

text \<open>\<^verbatim>\<open>(?:\.\d{1,2})?\<close>\<close>

definition fraction :: rx where
  "fraction = Opt (Cat (Chr 46) (Cat (Sym is_digit) (Opt (Sym is_digit))))"

text \<open>The optional rupee sign and white space at the start of the three suffix patterns.\<close>

definition opt_rupee :: rx where
  "opt_rupee = Cat (Opt (Chr rupee)) (Star (Sym js_space))"

text \<open>
  The seven patterns of \<^verbatim>\<open>formats\<close>, in the order of the source. The rupee sign is
  written \<^verbatim>\<open>\u20B9\<close> and the Devanagari letter \<^verbatim>\<open>\u0932\<close> here.

  \<^enum> \<^verbatim>\<open>/\u20B9\s*([\d,]+(?:\.\d{1,2})?)/\<close>
  \<^enum> \<^verbatim>\<open>/Rs\.?\s*([\d,]+(?:\.\d{1,2})?)/i\<close>
  \<^enum> \<^verbatim>\<open>/\u20B9?\s*([\d\.]+)\s*[Kk\u0932akLakh]/\<close>
  \<^enum> \<^verbatim>\<open>/\u20B9?\s*([\d\.]+)\s*L(?:akh)?/i\<close>
  \<^enum> \<^verbatim>\<open>/\u20B9?\s*([\d\.]+)\s*Cr(?:ore)?/i\<close>
  \<^enum> \<^verbatim>\<open>/([\d]{1,2}[,\d]*(?:\.\d{1,2})?)/\<close>
  \<^enum> \<^verbatim>\<open>/(\d+(?:\.\d{1,2})?)/\<close>
\<close>

definition format1 :: regex where
  "format1 =
     \<lparr>before = Cat (Chr rupee) (Star (Sym js_space)),
      group = Cat (Plus (Sym digit_or_comma)) fraction,
      after = Eps\<rparr>"

definition format2 :: regex where
  "format2 =
     \<lparr>before = Cat (Ci CHR ''R'') (Cat (Ci CHR ''s'') (Cat (Opt (Chr 46)) (Star (Sym js_space)))),
      group = Cat (Plus (Sym digit_or_comma)) fraction,
      after = Eps\<rparr>"

definition format3 :: regex where
  "format3 =
     \<lparr>before = opt_rupee,
      group = Plus (Sym digit_or_dot),
      after = Cat (Star (Sym js_space))
                (Sym (\<lambda>c. c = deva_la \<or> c \<in> of_char ` set ''KkakLakh''))\<rparr>"

definition format4 :: regex where
  "format4 =
     \<lparr>before = opt_rupee,
      group = Plus (Sym digit_or_dot),
      after = Cat (Star (Sym js_space))
                (Cat (Ci CHR ''L'') (Opt (Cat (Ci CHR ''a'') (Cat (Ci CHR ''k'') (Ci CHR ''h'')))))\<rparr>"

definition format5 :: regex where
  "format5 =
     \<lparr>before = opt_rupee,
      group = Plus (Sym digit_or_dot),
      after = Cat (Star (Sym js_space))
                (Cat (Ci CHR ''C'') (Cat (Ci CHR ''r'')
                   (Opt (Cat (Ci CHR ''o'') (Cat (Ci CHR ''r'') (Ci CHR ''e''))))))\<rparr>"

definition format6 :: regex where
  "format6 =
     \<lparr>before = Eps,
      group = Cat (Sym is_digit) (Cat (Opt (Sym is_digit))
                (Cat (Star (Sym digit_or_comma)) fraction)),
      after = Eps\<rparr>"

definition format7 :: regex where
  "format7 =
     \<lparr>before = Eps,
      group = Cat (Plus (Sym is_digit)) fraction,
      after = Eps\<rparr>"

definition formats :: "regex list" where
  "formats = [format1, format2, format3, format4, format5, format6, format7]"

text \<open>The multiplier read from the upper-cased original text.\<close>

definition suffix_multiplier :: "jsstring \<Rightarrow> real" where
  "suffix_multiplier upperText =
     (if includes_js upperText (lit ''CR'') \<or> includes_js upperText (lit ''CRORE'') then 10000000
      else if includes_js upperText (lit ''L'') \<or> includes_js upperText (lit ''LAKH'')
              \<or> includes_js upperText (lit ''LAC'') then 100000
      else if includes_js upperText (lit ''K'') then 1000
      else 1)"

text \<open>
  The loop over \<^verbatim>\<open>formats\<close>: the first pattern that matches and whose group parses to a
  number decides; a group that parses to \<^verbatim>\<open>NaN\<close> passes on to the next pattern.
\<close>

fun try_formats :: "regex list \<Rightarrow> jsstring \<Rightarrow> jsstring \<Rightarrow> real" where
  "try_formats [] cleanedText priceText = 0"
| "try_formats (format # rest) cleanedText priceText =
     (case match_rx format cleanedText of
        None \<Rightarrow> try_formats rest cleanedText priceText
      | Some g \<Rightarrow>
          (case parseFloat (filter (\<lambda>c. c \<noteq> 44) g) of
             None \<Rightarrow> try_formats rest cleanedText priceText
           | Some price \<Rightarrow>
               of_int (round (price * suffix_multiplier (toUpperCase priceText)))))"

definition extractPrice :: "jsstring \<Rightarrow> real" where
  "extractPrice priceText =
     (if priceText = [] then 0
      else try_formats formats (trim (map (\<lambda>c. if kept c then c else 32) priceText)) priceText)"

subsection \<open>The deterministic price estimator\<close>

text \<open>
  \<^verbatim>\<open>generateSimpleHash\<close>: the loop keeps a 32-bit integer (\<^verbatim>\<open>hash & hash\<close> converts to
  one after every step), here a \<open>32 word\<close> read as two's complement; the result is its
  absolute value.
\<close>

definition hash_step :: "32 word \<Rightarrow> nat \<Rightarrow> 32 word" where
  "hash_step hash char = (push_bit 5 hash - hash) + of_nat char"

definition generateSimpleHash :: "jsstring \<Rightarrow> int" where
  "generateSimpleHash str = \<bar>sint (foldl hash_step 0 str)\<bar>"

record priceRange =
  min_r :: real
  max_r :: real

text \<open>
  The table \<^verbatim>\<open>priceRanges\<close> of \<^verbatim>\<open>generateReasonablePrice\<close>, in the order in which
  \<^verbatim>\<open>Object.entries\<close> lists it.
\<close>

definition priceRanges :: "(jsstring \<times> priceRange) list" where
  "priceRanges =
   [ (lit ''phone'', \<lparr>min_r = 8000, max_r = 100000\<rparr>),
     (lit ''smartphone'', \<lparr>min_r = 8000, max_r = 100000\<rparr>),
     (lit ''laptop'', \<lparr>min_r = 25000, max_r = 150000\<rparr>),
     (lit ''tablet'', \<lparr>min_r = 10000, max_r = 80000\<rparr>),
     (lit ''headphone'', \<lparr>min_r = 1000, max_r = 50000\<rparr>),
     (lit ''earphone'', \<lparr>min_r = 500, max_r = 15000\<rparr>),
     (lit ''tv'', \<lparr>min_r = 15000, max_r = 200000\<rparr>),
     (lit ''camera'', \<lparr>min_r = 10000, max_r = 200000\<rparr>),
     (lit ''shirt'', \<lparr>min_r = 400, max_r = 5000\<rparr>),
     (lit ''t-shirt'', \<lparr>min_r = 300, max_r = 3000\<rparr>),
     (lit ''dress'', \<lparr>min_r = 600, max_r = 10000\<rparr>),
     (lit ''jeans'', \<lparr>min_r = 800, max_r = 8000\<rparr>),
     (lit ''shoes'', \<lparr>min_r = 1000, max_r = 15000\<rparr>),
     (lit ''sneaker'', \<lparr>min_r = 1500, max_r = 12000\<rparr>),
     (lit ''cream'', \<lparr>min_r = 200, max_r = 3000\<rparr>),
     (lit ''perfume'', \<lparr>min_r = 800, max_r = 8000\<rparr>),
     (lit ''sunscreen'', \<lparr>min_r = 200, max_r = 1500\<rparr>),
     (lit ''shampoo'', \<lparr>min_r = 150, max_r = 2000\<rparr>),
     (lit ''makeup'', \<lparr>min_r = 300, max_r = 5000\<rparr>),
     (lit ''microwave'', \<lparr>min_r = 5000, max_r = 40000\<rparr>),
     (lit ''refrigerator'', \<lparr>min_r = 15000, max_r = 100000\<rparr>),
     (lit ''washing'', \<lparr>min_r = 12000, max_r = 80000\<rparr>),
     (lit ''book'', \<lparr>min_r = 100, max_r = 2000\<rparr>),
     (lit ''default'', \<lparr>min_r = 500, max_r = 10000\<rparr>) ]"

text \<open>
  The loop over the entries: the first keyword other than \<^verbatim>\<open>default\<close> that the lower-cased
  name includes decides and ends the loop; \<open>selected\<close> is the range held so far.
\<close>

fun select_range :: "(jsstring \<times> priceRange) list \<Rightarrow> jsstring \<Rightarrow> priceRange \<Rightarrow> priceRange" where
  "select_range [] name selected = selected"
| "select_range ((keyword, rng) # rest) name selected =
     (if keyword \<noteq> lit ''default'' \<and> includes_js name keyword then rng
      else select_range rest name selected)"

definition selectedRange :: "jsstring \<Rightarrow> priceRange" where
  "selectedRange productName =
     select_range priceRanges (toLowerCase productName) \<lparr>min_r = 500, max_r = 10000\<rparr>"

definition generateReasonablePrice :: "jsstring \<Rightarrow> real" where
  "generateReasonablePrice productName =
     (let rng = selectedRange productName;
          nameHash = generateSimpleHash productName;
          seededValue = sin (of_int nameHash) * 10000;
          normalizedSeed = \<bar>seededValue - of_int \<lfloor>seededValue\<rfloor>\<bar>
      in of_int \<lfloor>normalizedSeed * (max_r rng - min_r rng + 1)\<rfloor> + min_r rng)"

subsection \<open>The category price validator\<close>

record validationRange = priceRange +
  typical :: priceRange

definition vrange :: "real \<Rightarrow> real \<Rightarrow> real \<Rightarrow> real \<Rightarrow> validationRange" where
  "vrange lo hi tlo thi = \<lparr>min_r = lo, max_r = hi, typical = \<lparr>min_r = tlo, max_r = thi\<rparr>\<rparr>"

definition validationRanges :: "(jsstring \<times> validationRange) list" where
  "validationRanges =
   [ (lit ''phone'', vrange 3000 200000 8000 80000),
     (lit ''smartphone'', vrange 3000 200000 8000 80000),
     (lit ''laptop'', vrange 15000 300000 25000 120000),
     (lit ''tablet'', vrange 5000 150000 10000 60000),
     (lit ''headphone'', vrange 200 100000 1000 25000),
     (lit ''earphone'', vrange 100 50000 500 10000),
     (lit ''shirt'', vrange 150 15000 400 4000),
     (lit ''t-shirt'', vrange 100 10000 300 2500),
     (lit ''jeans'', vrange 400 20000 800 6000),
     (lit ''shoes'', vrange 500 50000 1000 12000),
     (lit ''cream'', vrange 50 10000 200 2500),
     (lit ''perfume'', vrange 200 30000 800 8000),
     (lit ''makeup'', vrange 100 15000 300 4000) ]"

text \<open>
  The loop that finds the matching product type: \<^verbatim>\<open>detectedType\<close> and \<^verbatim>\<open>selectedRange\<close>
  of the first keyword that the name includes, \<open>None\<close> while both are \<^verbatim>\<open>null\<close>.
\<close>

fun detect_type :: "(jsstring \<times> validationRange) list \<Rightarrow> jsstring
    \<Rightarrow> (jsstring \<times> validationRange) option" where
  "detect_type [] name = None"
| "detect_type ((type, rng) # rest) name =
     (if includes_js name type then Some (type, rng) else detect_type rest name)"

text \<open>The result of the validator; its \<^verbatim>\<open>reason\<close>, a message for the log, is left out.\<close>

record validation =
  isValid :: bool
  suggestedPrice :: "real option"

definition validatePriceByCategory :: "real \<Rightarrow> jsstring \<Rightarrow> jsstring \<Rightarrow> validation" where
  "validatePriceByCategory price productName platform =
     (case detect_type validationRanges (toLowerCase productName) of
        Some (detectedType, rng) \<Rightarrow>
          if price < min_r rng \<or> price > max_r rng
          then \<lparr>isValid = False,
                suggestedPrice =
                  Some (min (max price (min_r (typical rng))) (max_r (typical rng)))\<rparr>
          else \<lparr>isValid = True, suggestedPrice = None\<rparr>
      | None \<Rightarrow> \<lparr>isValid = True, suggestedPrice = None\<rparr>)"

text \<open>
  \<^verbatim>\<open>validateAndNormalizePrice\<close>. The test \<^verbatim>\<open>!price || price <= 0\<close> is \<open>price \<le> 0\<close> on a
  number; \<^verbatim>\<open>suggestedPrice || price\<close> takes the suggestion unless it is absent or zero.
\<close>

definition validateAndNormalizePrice :: "real \<Rightarrow> jsstring \<Rightarrow> jsstring \<Rightarrow> real" where
  "validateAndNormalizePrice price productName platform =
     (if price \<le> 0 then 0
      else if price > 500000 then generateReasonablePrice productName
      else if price < 10 then generateReasonablePrice productName
      else let categoryValidation = validatePriceByCategory price productName platform
           in if \<not> isValid categoryValidation
              then (case suggestedPrice categoryValidation of
                      Some suggested \<Rightarrow> if suggested \<noteq> 0 then suggested else price
                    | None \<Rightarrow> price)
              else price)"

subsection \<open>Double-precision arithmetic\<close>

text \<open>
  An operation on doubles returns the double nearest to the exact result, the one with
  the even significand when two are equally near. \<open>binade x\<close> is the exponent of \<open>x\<close>,
  held at -1022 for the subnormal numbers; the doubles of that exponent are the multiples
  of 2 to the power \<open>binade x - 52\<close>. The operations of the discount calculator yield no
  result beyond the largest double: a difference of positive numbers, a quotient below 1
  and its product with 100.
\<close>

definition binade :: "real \<Rightarrow> int" where
  "binade x = max \<lfloor>log 2 \<bar>x\<bar>\<rfloor> (- 1022)"

definition nearest_even :: "real \<Rightarrow> int" where
  "nearest_even y =
     (if y - of_int \<lfloor>y\<rfloor> < 1 / 2 then \<lfloor>y\<rfloor>
      else if y - of_int \<lfloor>y\<rfloor> > 1 / 2 then \<lfloor>y\<rfloor> + 1
      else if even \<lfloor>y\<rfloor> then \<lfloor>y\<rfloor> else \<lfloor>y\<rfloor> + 1)"

definition fl64 :: "real \<Rightarrow> real" where
  "fl64 x =
     (if x = 0 then 0
      else of_int (nearest_even (x / 2 powi (binade x - 52))) * 2 powi (binade x - 52))"

subsection \<open>The discount calculator\<close>

record discount =
  discountPercentage :: "real option"
  discountAmount :: "real option"

text \<open>
  \<^verbatim>\<open>!mrp\<close> holds of an absent list price and of the list price 0. The subtraction, the
  division and the multiplication are operations on doubles; \<^verbatim>\<open>Math.round\<close> yields the
  nearest whole number, the greater one of two equally near.
\<close>

definition calculateDiscount :: "real \<Rightarrow> real option \<Rightarrow> discount" where
  "calculateDiscount sellingPrice mrp =
     (case mrp of
        None \<Rightarrow> \<lparr>discountPercentage = None, discountAmount = None\<rparr>
      | Some m \<Rightarrow>
          if m = 0 \<or> m \<le> sellingPrice
          then \<lparr>discountPercentage = None, discountAmount = None\<rparr>
          else let amount = fl64 (m - sellingPrice)
               in \<lparr>discountPercentage = Some (of_int (round (fl64 (fl64 (amount / m) * 100)))),
                   discountAmount = Some amount\<rparr>)"

subsection \<open>Well-formed tables\<close>

text \<open>
  What the proofs need of the two tables: whole bounds in increasing order inside the
  absolute bounds, and for the validator a typical band inside the hard bounds.
\<close>

definition sound_range :: "priceRange \<Rightarrow> bool" where
  "sound_range r = (min_r r \<in> \<int> \<and> max_r r \<in> \<int> \<and> 10 \<le> min_r r \<and> min_r r \<le> max_r r
     \<and> max_r r \<le> 500000)"

definition sound_validation :: "validationRange \<Rightarrow> bool" where
  "sound_validation r = (10 \<le> min_r r \<and> min_r r \<le> min_r (typical r)
     \<and> min_r (typical r) \<le> max_r (typical r) \<and> max_r (typical r) \<le> max_r r
     \<and> max_r r \<le> 500000)"



subsection \<open>The host: pages, the network, random numbers, URLs\<close>

text \<open>
  A loaded page (the \<^verbatim>\<open>$\<close> of cheerio) is known through the queries the scraper makes:
  \<^item> \<open>elements p sel\<close> is the text content of each element that the selector matches, in
    document order, so that \<^verbatim>\<open>$(sel).text()\<close> is their concatenation and
    \<^verbatim>\<open>$(sel).first().text()\<close> is the first of them, or the empty string;
  \<^item> \<open>first_find p sel sub\<close> is the same for \<^verbatim>\<open>$(sel).first().find(sub)\<close>;
  \<^item> \<open>first_attr p sel sub a\<close> is \<^verbatim>\<open>$(sel).first().find(sub).attr(a)\<close>.
\<close>

record page =
  elements :: "string \<Rightarrow> jsstring list"
  first_find :: "string \<Rightarrow> string \<Rightarrow> jsstring list"
  first_attr :: "string \<Rightarrow> string \<Rightarrow> string \<Rightarrow> jsstring option"

text \<open>What \<^verbatim>\<open>extractProductNameFromUrl\<close> reads of a parsed \<^verbatim>\<open>URL\<close> object.\<close>

record parsed_url =
  pathname :: jsstring
  param_q :: "jsstring option"
  param_search :: "jsstring option"

text \<open>
  The host is a parameter of every function with an effect. A counter of effects is
  threaded through them: \<open>random h k\<close> is the value of the call of \<^verbatim>\<open>Math.random\<close> made
  as effect number \<open>k\<close>, \<open>fetch h k url agent\<close> the page obtained by a request made as
  effect number \<open>k\<close> with the user agent of index \<open>agent\<close> (\<open>None\<close> for a network error,
  a status that is not ok, or an empty body), and \<open>parse_url h url\<close> is \<^verbatim>\<open>new URL(url)\<close>
  (\<open>None\<close> when it throws).
\<close>

record host =
  random :: "nat \<Rightarrow> real"
  fetch :: "nat \<Rightarrow> jsstring \<Rightarrow> int \<Rightarrow> page option"
  parse_url :: "jsstring \<Rightarrow> parsed_url option"

definition text_all :: "page \<Rightarrow> string \<Rightarrow> jsstring" where
  "text_all p sel = trim (concat (elements p sel))"

definition text_first :: "page \<Rightarrow> string \<Rightarrow> jsstring" where
  "text_first p sel = trim (case elements p sel of [] \<Rightarrow> [] | t # _ \<Rightarrow> t)"

text \<open>\<^verbatim>\<open>a || b || c\<close> on strings: the first that is not empty, the last one otherwise.\<close>

fun first_nonempty :: "jsstring list \<Rightarrow> jsstring" where
  "first_nonempty [] = []"
| "first_nonempty (x # xs) = (if x \<noteq> [] then x else first_nonempty xs)"

subsection \<open>\<^verbatim>\<open>encodeURIComponent\<close>\<close>

text \<open>
  \<^verbatim>\<open>encodeURIComponent\<close> keeps the unreserved characters, writes every other code point as
  the percent-encoded bytes of its UTF-8 form, and throws a \<^verbatim>\<open>URIError\<close> (here \<open>None\<close>) on
  a surrogate code unit that is not part of a pair.
\<close>

definition is_high_surrogate :: "nat \<Rightarrow> bool" where
  "is_high_surrogate c = (55296 \<le> c \<and> c \<le> 56319)"

definition is_low_surrogate :: "nat \<Rightarrow> bool" where
  "is_low_surrogate c = (56320 \<le> c \<and> c \<le> 57343)"

definition uri_unreserved :: "nat \<Rightarrow> bool" where
  "uri_unreserved c = ((65 \<le> c \<and> c \<le> 90) \<or> (97 \<le> c \<and> c \<le> 122) \<or> is_digit c
     \<or> c \<in> of_char ` set ''-_.!~*()'' \<or> c = 39)"

definition hex_digit :: "nat \<Rightarrow> nat" where
  "hex_digit d = (if d < 10 then 48 + d else 55 + d)"

definition percent :: "nat \<Rightarrow> jsstring" where
  "percent b = [37, hex_digit (b div 16), hex_digit (b mod 16)]"

definition utf8 :: "nat \<Rightarrow> nat list" where
  "utf8 cp =
     (if cp < 128 then [cp]
      else if cp < 2048 then [192 + cp div 64, 128 + cp mod 64]
      else if cp < 65536 then [224 + cp div 4096, 128 + cp div 64 mod 64, 128 + cp mod 64]
      else [240 + cp div 262144, 128 + cp div 4096 mod 64, 128 + cp div 64 mod 64,
            128 + cp mod 64])"

fun encodeURIComponent :: "jsstring \<Rightarrow> jsstring option" where
  "encodeURIComponent [] = Some []"
| "encodeURIComponent (c # cs) =
     (if uri_unreserved c then map_option ((#) c) (encodeURIComponent cs)
      else if is_low_surrogate c then None
      else if is_high_surrogate c then
        (case cs of
           [] \<Rightarrow> None
         | d # ds \<Rightarrow>
             if is_low_surrogate d
             then map_option ((@) (concat (map percent
                    (utf8 ((c - 55296) * 1024 + (d - 56320) + 65536)))))
                    (encodeURIComponent ds)
             else None)
      else map_option ((@) (concat (map percent (utf8 c)))) (encodeURIComponent cs))"

text \<open>\<^verbatim>\<open>String.prototype.isWellFormed\<close>: no surrogate code unit outside a pair.\<close>

fun isWellFormed :: "jsstring \<Rightarrow> bool" where
  "isWellFormed [] = True"
| "isWellFormed [c] = (\<not> is_high_surrogate c \<and> \<not> is_low_surrogate c)"
| "isWellFormed (c # d # ds) =
     (if is_high_surrogate c then is_low_surrogate d \<and> isWellFormed ds
      else \<not> is_low_surrogate c \<and> isWellFormed (d # ds))"

subsection \<open>The platform page extractor\<close>

record ProductData =
  pd_name :: jsstring
  pd_price :: real
  pd_originalPrice :: "real option"
  pd_discountPercentage :: "real option"
  pd_discountAmount :: "real option"
  pd_rating :: "real option"
  pd_reviewCount :: "real option"
  pd_availability :: jsstring
  pd_features :: "jsstring list"
  pd_platform :: jsstring
  pd_url :: jsstring

text \<open>A literal text inside a pattern.\<close>

definition Lit :: "string \<Rightarrow> rx" where
  "Lit s = foldr (\<lambda>c r. Cat (Chr (of_char c)) r) s Eps"

text \<open>
  \<^verbatim>\<open>extractRating\<close> with the pattern \<^verbatim>\<open>/(\d+\.?\d*)\s*out of/\<close> and \<^verbatim>\<open>extractReviewCount\<close>
  with \<^verbatim>\<open>/(\d+(?:,\d+)*)\s*rating/\<close>. Both groups start with a digit, so that
  \<^verbatim>\<open>parseFloat\<close> and \<^verbatim>\<open>parseInt\<close> yield a number.
\<close>

definition rating_pattern :: regex where
  "rating_pattern =
     \<lparr>before = Eps,
      group = Cat (Plus (Sym is_digit)) (Cat (Opt (Chr 46)) (Star (Sym is_digit))),
      after = Cat (Star (Sym js_space)) (Lit ''out of'')\<rparr>"

definition review_pattern :: regex where
  "review_pattern =
     \<lparr>before = Eps,
      group = Cat (Plus (Sym is_digit)) (Star (Cat (Chr 44) (Plus (Sym is_digit)))),
      after = Cat (Star (Sym js_space)) (Lit ''rating'')\<rparr>"

definition extractRating :: "jsstring \<Rightarrow> real option" where
  "extractRating ratingText =
     (case match_rx rating_pattern ratingText of None \<Rightarrow> None | Some g \<Rightarrow> parseFloat g)"

definition extractReviewCount :: "jsstring \<Rightarrow> real option" where
  "extractReviewCount reviewText =
     (case match_rx review_pattern reviewText of
        None \<Rightarrow> None
      | Some g \<Rightarrow> Some (real (digits_value (filter (\<lambda>c. c \<noteq> 44) g))))"

text \<open>
  The two loops over selectors that \<^verbatim>\<open>extractAmazonPrices\<close>, \<^verbatim>\<open>extractFlipkartPrices\<close> and
  \<^verbatim>\<open>extractGenericData\<close> each contain: the selling price is the first price above 0 found
  under a selector with text (0 when there is none), the list price the first price above
  the selling price.
\<close>

fun find_price :: "page \<Rightarrow> string list \<Rightarrow> real" where
  "find_price p [] = 0"
| "find_price p (selector # rest) =
     (let priceText = text_first p selector
      in if priceText \<noteq> [] \<and> extractPrice priceText > 0 then extractPrice priceText
         else find_price p rest)"

fun find_mrp :: "page \<Rightarrow> string list \<Rightarrow> real \<Rightarrow> real option" where
  "find_mrp p [] sellingPrice = None"
| "find_mrp p (selector # rest) sellingPrice =
     (let mrpText = text_first p selector
      in if mrpText \<noteq> [] \<and> extractPrice mrpText > sellingPrice then Some (extractPrice mrpText)
         else find_mrp p rest sellingPrice)"

definition amazon_price_selectors :: "string list" where
  \<open>amazon_price_selectors =
   [ ''.a-price.a-text-price.a-size-medium.apexPriceToPay .a-offscreen'',
     ''.a-price-range .a-offscreen'',
     ''.a-price .a-offscreen'',
     ''.a-price-whole'',
     ''span.a-price.a-text-price.a-size-medium.apexPriceToPay span.a-offscreen'',
     ''.a-color-price.a-size-medium'',
     ''#priceblock_dealprice'',
     ''#priceblock_ourprice'',
     ''.a-price.a-text-price .a-offscreen'',
     ''.a-price.a-text-price.a-size-base .a-offscreen'',
     ''.a-section .a-price .a-offscreen'',
     ''span.a-price-symbol + span.a-price-whole'',
     ''.a-price-current .a-offscreen'',
     ''[data-asin-price] .a-offscreen'',
     ''.a-box .a-price .a-offscreen'' ]\<close>

definition amazon_mrp_selectors :: "string list" where
  \<open>amazon_mrp_selectors =
   [ ''.a-price.a-text-price .a-offscreen'',
     ''span.a-price.a-text-price span.a-offscreen'',
     ''.a-text-strike .a-offscreen'',
     ''.a-text-price.a-size-base .a-offscreen'',
     ''#listPrice .a-offscreen'',
     ''.a-price.a-text-price.a-size-base.a-color-secondary .a-offscreen'',
     ''.a-price.a-text-price.a-size-small .a-offscreen'',
     ''.a-text-strike'',
     ''[data-a-color="secondary"] .a-offscreen'',
     ''.a-row .a-price.a-text-price .a-offscreen'' ]\<close>

definition extractAmazonPrices :: "page \<Rightarrow> real \<times> real option" where
  "extractAmazonPrices p =
     (let sellingPrice = find_price p amazon_price_selectors
      in (sellingPrice, find_mrp p amazon_mrp_selectors sellingPrice))"

definition flipkart_price_selectors :: "string list" where
  \<open>flipkart_price_selectors =
   [ ''._30jeq3._16Jk6d'', ''._1_WHN1'', ''.Nx9bqj.CxhGGd'', ''._30jeq3'', ''.Nx9bqj'',
     ''._25b18c'', ''._1_WHN1._30jeq3'', ''.Nx9bqj'', ''._16Jk6d'',
     ''[data-testid="price-final"]'', ''._4b5DiR'', ''._13fcjj'', ''.CEmiEU'' ]\<close>

definition flipkart_mrp_selectors :: "string list" where
  \<open>flipkart_mrp_selectors =
   [ ''._3I9_wc._27UcVY'', ''._3auQ3N._1POkHg'', ''._3I9_wc'',
     ''._3auQ3N'', ''._27UcVY'', ''.yRaY8j'', ''._2Tpdn3'',
     ''[data-testid="price-original"]'', ''.CEmiEU._16Jk6d'' ]\<close>

definition extractFlipkartPrices :: "page \<Rightarrow> real \<times> real option" where
  "extractFlipkartPrices p =
     (let sellingPrice = find_price p flipkart_price_selectors
      in (sellingPrice, find_mrp p flipkart_mrp_selectors sellingPrice))"

text \<open>
  The part that \<^verbatim>\<open>extractAmazonData\<close> and \<^verbatim>\<open>extractFlipkartData\<close> have in common once the
  name and the raw prices are read: both return \<^verbatim>\<open>null\<close> without a name, without a raw
  price, and without a validated price. \<^verbatim>\<open>rawOriginalPrice ? ... : undefined\<close> drops a list
  price of 0.
\<close>

definition validated_original :: "real option \<Rightarrow> jsstring \<Rightarrow> jsstring \<Rightarrow> real option" where
  "validated_original rawOriginalPrice productName platform =
     (case rawOriginalPrice of
        None \<Rightarrow> None
      | Some m \<Rightarrow> if m = 0 then None else Some (validateAndNormalizePrice m productName platform))"

definition amazon_name :: "page \<Rightarrow> jsstring" where
  "amazon_name p = first_nonempty
     [text_all p ''#productTitle'', text_all p ''h1.a-size-large span'', text_all p ''h1 span'']"

definition extractAmazonData :: "page \<Rightarrow> jsstring \<Rightarrow> ProductData option" where
  "extractAmazonData p url =
     (let productName = amazon_name p in
      if productName = [] then None
      else let (rawPrice, rawOriginalPrice) = extractAmazonPrices p in
      if rawPrice = 0 then None
      else let price = validateAndNormalizePrice rawPrice productName (lit ''Amazon'');
               originalPrice = validated_original rawOriginalPrice productName (lit ''Amazon'') in
      if price = 0 then None
      else let d = calculateDiscount price originalPrice in
        Some \<lparr>pd_name = take 150 productName,
              pd_price = price,
              pd_originalPrice = originalPrice,
              pd_discountPercentage = discountPercentage d,
              pd_discountAmount = discountAmount d,
              pd_rating = extractRating (text_first p ''.a-icon-alt''),
              pd_reviewCount = extractReviewCount (text_all p ''#acrCustomerReviewText''),
              pd_availability = lit ''In Stock'',
              pd_features = take 10 (filter (\<lambda>feature. length feature > 10)
                                (map trim (elements p ''#feature-bullets ul li span''))),
              pd_platform = lit ''Amazon'',
              pd_url = url\<rparr>)"

definition flipkart_name :: "page \<Rightarrow> jsstring" where
  "flipkart_name p = first_nonempty
     [text_all p ''h1.yhB1nd'', text_all p ''h1._35KyD6'', text_all p ''.B_NuCI'']"

definition extractFlipkartData :: "page \<Rightarrow> jsstring \<Rightarrow> ProductData option" where
  "extractFlipkartData p url =
     (let productName = flipkart_name p in
      if productName = [] then None
      else let (rawPrice, rawOriginalPrice) = extractFlipkartPrices p in
      if rawPrice = 0 then None
      else let price = validateAndNormalizePrice rawPrice productName (lit ''Flipkart'');
               originalPrice = validated_original rawOriginalPrice productName (lit ''Flipkart'') in
      if price = 0 then None
      else let d = calculateDiscount price originalPrice in
        Some \<lparr>pd_name = take 150 productName,
              pd_price = price,
              pd_originalPrice = originalPrice,
              pd_discountPercentage = discountPercentage d,
              pd_discountAmount = discountAmount d,
              pd_rating = extractRating (text_all p ''._3LWZlK''),
              pd_reviewCount = extractReviewCount (text_all p ''._2_R_DZ''),
              pd_availability = lit ''In Stock'',
              pd_features = take 10 (filter (\<lambda>feature. length feature > 5)
                                (map trim (elements p ''._21lJbe li''))),
              pd_platform = lit ''Flipkart'',
              pd_url = url\<rparr>)"

text \<open>\<^verbatim>\<open>extractGenericData\<close>, for every other platform.\<close>

definition generic_name :: "page \<Rightarrow> jsstring" where
  \<open>generic_name p = first_nonempty
     [text_first p ''h1'', text_all p ''[data-testid="product-title"]'',
      text_all p ''.product-title'', text_all p ''.product-name'', text_all p ''h1.title'',
      text_all p ''.main-title'']\<close>

definition generic_price_selectors :: "string list" where
  \<open>generic_price_selectors =
   [ ''.price'', ''.product-price'', ''[data-testid="price"]'', ''.current-price'',
     ''.final-price'', ''.selling-price'', ''.offer-price'', ''.discounted-price'',
     ''.price-current'', ''.price-now'', ''.sale-price'' ]\<close>

definition generic_mrp_selectors :: "string list" where
  "generic_mrp_selectors =
   [ ''.original-price'', ''.mrp'', ''.price-original'', ''.was-price'', ''.list-price'',
     ''.regular-price'', ''.crossed-price'', ''.strike-price'' ]"

definition name_or_Product :: "jsstring \<Rightarrow> jsstring" where
  "name_or_Product productName = (if productName \<noteq> [] then productName else lit ''Product'')"

definition extractGenericData :: "page \<Rightarrow> jsstring \<Rightarrow> jsstring \<Rightarrow> ProductData option" where
  "extractGenericData p url platform =
     (let productName = generic_name p;
          found = find_price p generic_price_selectors;
          originalPrice = find_mrp p generic_mrp_selectors found;
          price = (if found = 0 then generateReasonablePrice productName else found);
          validatedPrice = validateAndNormalizePrice price (name_or_Product productName) platform;
          validatedOriginalPrice =
            validated_original originalPrice (name_or_Product productName) platform;
          d = calculateDiscount validatedPrice validatedOriginalPrice
      in Some \<lparr>pd_name = name_or_Product productName,
               pd_price = validatedPrice,
               pd_originalPrice = validatedOriginalPrice,
               pd_discountPercentage = discountPercentage d,
               pd_discountAmount = discountAmount d,
               pd_rating = None,
               pd_reviewCount = None,
               pd_availability = lit ''Available'',
               pd_features = [platform @ lit '' product''],
               pd_platform = platform,
               pd_url = url\<rparr>)"

subsection \<open>Fetching a product page, and the fallback data\<close>

definition detectPlatform :: "jsstring \<Rightarrow> jsstring" where
  "detectPlatform url =
     (let hostname = toLowerCase url in
      if includes_js hostname (lit ''amazon'') then lit ''Amazon''
      else if includes_js hostname (lit ''flipkart'') then lit ''Flipkart''
      else if includes_js hostname (lit ''myntra'') then lit ''Myntra''
      else if includes_js hostname (lit ''nykaa'') then lit ''Nykaa''
      else if includes_js hostname (lit ''ajio'') then lit ''Ajio''
      else lit ''Unknown'')"

text \<open>
  \<^verbatim>\<open>fetchPageContent\<close> draws the user agent with \<^verbatim>\<open>Math.random\<close> and then makes the
  request: two effects. Every failure of the request is \<^verbatim>\<open>null\<close>.
\<close>

definition fetchPageContent :: "host \<Rightarrow> nat \<Rightarrow> jsstring \<Rightarrow> page option \<times> nat" where
  "fetchPageContent h k url = (fetch h (k + 1) url \<lfloor>random h k * 3\<rfloor>, k + 2)"

text \<open>\<^verbatim>\<open>s.split(sep)\<close> for a separator of one character; \<open>cur\<close> is the piece being read.\<close>

fun split_on :: "nat \<Rightarrow> jsstring \<Rightarrow> jsstring \<Rightarrow> jsstring list" where
  "split_on sep [] cur = [rev cur]"
| "split_on sep (c # cs) cur =
     (if c = sep then rev cur # split_on sep cs [] else split_on sep cs (c # cur))"

fun indexOf :: "jsstring list \<Rightarrow> jsstring \<Rightarrow> nat option" where
  "indexOf [] x = None"
| "indexOf (y # ys) x = (if y = x then Some 0 else map_option Suc (indexOf ys x))"

text \<open>\<^verbatim>\<open>.replace(/-/g, ' ')\<close>\<close>

definition dashes_to_spaces :: "jsstring \<Rightarrow> jsstring" where
  "dashes_to_spaces s = map (\<lambda>c. if c = 45 then 32 else c) s"

definition extractProductNameFromUrl :: "host \<Rightarrow> jsstring \<Rightarrow> jsstring" where
  "extractProductNameFromUrl h url =
     (case parse_url h url of
        None \<Rightarrow> lit ''Product''
      | Some urlObj \<Rightarrow>
          let parts = split_on 47 (pathname urlObj) [];
              amazon = (if includes_js (pathname urlObj) (lit ''/dp/'') then
                          (case indexOf parts (lit ''dp'') of
                             Some dpIndex \<Rightarrow>
                               if dpIndex > 0 \<and> parts ! (dpIndex - 1) \<noteq> []
                               then Some (dashes_to_spaces (parts ! (dpIndex - 1))) else None
                           | None \<Rightarrow> None)
                        else None);
              flipkart = (if includes_js (pathname urlObj) (lit ''/p/'') \<and> length parts > 1
                          then Some (dashes_to_spaces (parts ! 1)) else None);
              query = (case param_q urlObj of
                         Some q \<Rightarrow> if q \<noteq> [] then Some q else param_search urlObj
                       | None \<Rightarrow> param_search urlObj);
              pathParts = filter (\<lambda>part. part \<noteq> [] \<and> length part > 2) parts
          in case amazon of Some n \<Rightarrow> n | None \<Rightarrow>
             (case flipkart of Some n \<Rightarrow> n | None \<Rightarrow>
             (case query of Some q \<Rightarrow> if q \<noteq> [] then q
                                       else if pathParts \<noteq> [] then dashes_to_spaces (last pathParts)
                                       else lit ''Product''
              | None \<Rightarrow> if pathParts \<noteq> [] then dashes_to_spaces (last pathParts)
                        else lit ''Product'')))"

definition generateFallbackData :: "host \<Rightarrow> jsstring \<Rightarrow> jsstring \<Rightarrow> ProductData" where
  "generateFallbackData h url platform =
     (let productName = extractProductNameFromUrl h url
      in \<lparr>pd_name = name_or_Product productName,
          pd_price = generateReasonablePrice productName,
          pd_originalPrice = None,
          pd_discountPercentage = None,
          pd_discountAmount = None,
          pd_rating = None,
          pd_reviewCount = None,
          pd_availability = lit ''Check availability'',
          pd_features = [platform @ lit '' product'',
                         lit ''Real-time data available on platform''],
          pd_platform = platform,
          pd_url = url\<rparr>)"

text \<open>
  \<^verbatim>\<open>extractProductData\<close>: the page of the platform's extractor, and the fallback data when
  the page could not be fetched or the extractor returned \<^verbatim>\<open>null\<close>. (Its \<^verbatim>\<open>catch\<close> returns
  the fallback data as well; no step of the model throws.)
\<close>

definition extractProductData :: "host \<Rightarrow> nat \<Rightarrow> jsstring \<Rightarrow> ProductData option \<times> nat" where
  "extractProductData h k url =
     (let platform = detectPlatform url;
          (html, k1) = fetchPageContent h k url
      in case html of
           None \<Rightarrow> (Some (generateFallbackData h url platform), k1)
         | Some p \<Rightarrow>
             let productData =
                   (if platform = lit ''Amazon'' then extractAmazonData p url
                    else if platform = lit ''Flipkart'' then extractFlipkartData p url
                    else extractGenericData p url platform)
             in (case productData of
                   Some d \<Rightarrow> (Some d, k1)
                 | None \<Rightarrow> (Some (generateFallbackData h url platform), k1)))"

subsection \<open>Similar products on other platforms\<close>

text \<open>
  \<^verbatim>\<open>createSearchTerms\<close>: lower case, every character outside \<^verbatim>\<open>\w\<close> and \<^verbatim>\<open>\s\<close> replaced by
  a space, split at runs of white space, short words and stop words dropped, the first
  four words joined by spaces.
\<close>

definition is_word_char :: "nat \<Rightarrow> bool" where
  "is_word_char c = ((65 \<le> c \<and> c \<le> 90) \<or> (97 \<le> c \<and> c \<le> 122) \<or> is_digit c \<or> c = 95)"

text \<open>\<^verbatim>\<open>s.split(/\s+/)\<close>; \<open>cur\<close> is the word being read, \<open>in_space\<close> holds inside a run.\<close>

fun split_spaces :: "jsstring \<Rightarrow> jsstring \<Rightarrow> bool \<Rightarrow> jsstring list" where
  "split_spaces [] cur in_space = [rev cur]"
| "split_spaces (c # cs) cur in_space =
     (if js_space c then (if in_space then split_spaces cs cur True
                          else rev cur # split_spaces cs [] True)
      else split_spaces cs (c # cur) False)"

fun join :: "jsstring list \<Rightarrow> jsstring \<Rightarrow> jsstring" where
  "join [] sep = []"
| "join [w] sep = w"
| "join (w # v # ws) sep = w @ sep @ join (v # ws) sep"

definition stopWords :: "jsstring list" where
  "stopWords = map lit [''the'', ''a'', ''an'', ''and'', ''or'', ''but'', ''in'', ''on'', ''at'',
     ''to'', ''for'', ''of'', ''with'']"

definition createSearchTerms :: "jsstring \<Rightarrow> jsstring" where
  "createSearchTerms productName =
     join (take 4 (filter (\<lambda>word. length word > 2 \<and> word \<notin> set stopWords)
                     (split_spaces (map (\<lambda>c. if is_word_char c \<or> js_space c then c else 32)
                                        (toLowerCase productName)) [] False)))
          (lit '' '')"

text \<open>\<^verbatim>\<open>buildSearchUrl\<close> throws (\<open>None\<close>) when \<^verbatim>\<open>encodeURIComponent\<close> does.\<close>

definition buildSearchUrl :: "jsstring \<Rightarrow> jsstring \<Rightarrow> jsstring option" where
  "buildSearchUrl platform searchTerms =
     (case encodeURIComponent searchTerms of
        None \<Rightarrow> None
      | Some encodedTerms \<Rightarrow>
          Some (if platform = lit ''Amazon''
                then lit ''https://www.amazon.in/s?k='' @ encodedTerms @ lit ''&ref=nb_sb_noss''
                else if platform = lit ''Flipkart''
                then lit ''https://www.flipkart.com/search?q='' @ encodedTerms
                else lit ''https://www.google.com/search?q='' @ encodedTerms))"

text \<open>
  \<^verbatim>\<open>generateFallbackPlatformData\<close> draws three random numbers (price variation, rating,
  number of reviews) and then builds the search URL, which may throw.
\<close>

definition generateFallbackPlatformData ::
    "host \<Rightarrow> nat \<Rightarrow> jsstring \<Rightarrow> ProductData \<Rightarrow> jsstring \<Rightarrow> ProductData option \<times> nat" where
  "generateFallbackPlatformData h k platform originalProduct searchTerms =
     (let basePrice = pd_price originalProduct;
          variation = (if platform = lit ''Amazon'' then 95 / 100 else 105 / 100);
          finalVariation = variation + (random h k * (2 / 10) - 1 / 10);
          price = of_int (round (basePrice * finalVariation));
          rating = 4 + random h (k + 1) * (8 / 10);
          reviewCount = of_int \<lfloor>random h (k + 2) * 2000\<rfloor> + 500
      in (case buildSearchUrl platform searchTerms of
            None \<Rightarrow> None
          | Some searchUrl \<Rightarrow>
              Some \<lparr>pd_name = pd_name originalProduct,
                    pd_price = price,
                    pd_originalPrice = None,
                    pd_discountPercentage = None,
                    pd_discountAmount = None,
                    pd_rating = Some rating,
                    pd_reviewCount = Some reviewCount,
                    pd_availability = lit ''In Stock'',
                    pd_features = [platform @ lit '' product'', lit ''Similar product available''],
                    pd_platform = platform,
                    pd_url = searchUrl\<rparr>,
          k + 3))"

text \<open>
  \<^verbatim>\<open>extractFirstAmazonResult\<close> and \<^verbatim>\<open>extractFirstFlipkartResult\<close> differ in their selectors,
  the site and the feature text only.
\<close>

definition extractFirstResult ::
    "page \<Rightarrow> string \<Rightarrow> string \<Rightarrow> string \<Rightarrow> string \<Rightarrow> jsstring \<Rightarrow> jsstring \<Rightarrow> ProductData option" where
  "extractFirstResult p result name_sel price_sel link_sel site platform =
     (if elements p result = [] then None
      else let productName = trim (concat (first_find p result name_sel));
               priceText = trim (concat (first_find p result price_sel));
               linkHref = first_attr p result link_sel ''href'';
               price = extractPrice priceText
           in (case linkHref of
                 None \<Rightarrow> None
               | Some href \<Rightarrow>
                   if productName = [] \<or> price = 0 \<or> href = [] then None
                   else Some \<lparr>pd_name = take 150 productName,
                              pd_price = price,
                              pd_originalPrice = None,
                              pd_discountPercentage = None,
                              pd_discountAmount = None,
                              pd_rating = None,
                              pd_reviewCount = None,
                              pd_availability = lit ''In Stock'',
                              pd_features = [platform @ lit '' product''],
                              pd_platform = platform,
                              pd_url = site @ href\<rparr>))"

definition extractFirstAmazonResult :: "page \<Rightarrow> ProductData option" where
  \<open>extractFirstAmazonResult p =
     extractFirstResult p ''[data-component-type="s-search-result"]'' ''h2 a span''
       ''.a-price .a-offscreen'' ''h2 a'' (lit ''https://www.amazon.in'') (lit ''Amazon'')\<close>

definition extractFirstFlipkartResult :: "page \<Rightarrow> ProductData option" where
  "extractFirstFlipkartResult p =
     extractFirstResult p ''._1AtVbE'' ''._4rR01T'' ''._30jeq3'' ''._1fQZEK''
       (lit ''https://www.flipkart.com'') (lit ''Flipkart'')"

text \<open>\<^verbatim>\<open>searchPlatform\<close>: every failure, a thrown error included, is \<^verbatim>\<open>null\<close>.\<close>

definition searchPlatform ::
    "host \<Rightarrow> nat \<Rightarrow> jsstring \<Rightarrow> jsstring \<Rightarrow> ProductData option \<times> nat" where
  "searchPlatform h k platform searchTerms =
     (case buildSearchUrl platform searchTerms of
        None \<Rightarrow> (None, k)
      | Some searchUrl \<Rightarrow>
          let (html, k1) = fetchPageContent h k searchUrl
          in (case html of
                None \<Rightarrow> (None, k1)
              | Some p \<Rightarrow>
                  (if platform = lit ''Amazon'' then extractFirstAmazonResult p
                   else if platform = lit ''Flipkart'' then extractFirstFlipkartResult p
                   else None, k1)))"

text \<open>
  One platform of \<^verbatim>\<open>findSimilarProducts\<close>: the search result, or the fallback data of the
  platform; \<open>None\<close> when building the fallback data throws.
\<close>

definition similar_on ::
    "host \<Rightarrow> nat \<Rightarrow> jsstring \<Rightarrow> ProductData \<Rightarrow> jsstring \<Rightarrow> ProductData option \<times> nat" where
  "similar_on h k platform originalProduct searchTerms =
     (let (found, k1) = searchPlatform h k platform searchTerms
      in case found of
           Some d \<Rightarrow> (Some d, k1)
         | None \<Rightarrow> generateFallbackPlatformData h k1 platform originalProduct searchTerms)"

text \<open>
  The \<^verbatim>\<open>catch\<close> of \<^verbatim>\<open>findSimilarProducts\<close> adds fallback data for one platform to the
  results gathered so far; an error thrown here leaves the function.
\<close>

definition similar_catch ::
    "host \<Rightarrow> nat \<Rightarrow> ProductData \<Rightarrow> ProductData list \<Rightarrow> ProductData list option \<times> nat" where
  "similar_catch h k originalProduct results =
     (let fallbackPlatform =
            (if pd_platform originalProduct = lit ''Amazon'' then lit ''Flipkart''
             else lit ''Amazon'');
          (d, k1) = generateFallbackPlatformData h k fallbackPlatform originalProduct
                      (createSearchTerms (pd_name originalProduct))
      in (map_option (\<lambda>x. results @ [x]) d, k1))"

definition findSimilarProducts ::
    "host \<Rightarrow> nat \<Rightarrow> ProductData \<Rightarrow> ProductData list option \<times> nat" where
  "findSimilarProducts h k originalProduct =
     (let searchTerms = createSearchTerms (pd_name originalProduct);
          (amazonResult, k1) =
            (if pd_platform originalProduct \<noteq> lit ''Amazon''
             then (let (d, k') = similar_on h k (lit ''Amazon'') originalProduct searchTerms
                   in (map_option (\<lambda>x. [x]) d, k'))
             else (Some [], k))
      in case amazonResult of
           None \<Rightarrow> similar_catch h k1 originalProduct []
         | Some results \<Rightarrow>
             let (flipkartResult, k2) =
                   (if pd_platform originalProduct \<noteq> lit ''Flipkart''
                    then (let (d, k') = similar_on h k1 (lit ''Flipkart'') originalProduct searchTerms
                          in (map_option (\<lambda>x. [x]) d, k'))
                    else (Some [], k1))
             in (case flipkartResult of
                   None \<Rightarrow> similar_catch h k2 originalProduct results
                 | Some others \<Rightarrow> (Some (results @ others), k2)))"

subsection \<open>The market data generator\<close>

record productInfo =
  info_name :: jsstring
  info_brand :: jsstring
  info_category :: jsstring
  info_url :: jsstring

definition brandPatterns :: "jsstring list" where
  "brandPatterns = map lit [''Samsung'', ''Apple'', ''iPhone'', ''OnePlus'', ''Xiaomi'', ''Realme'',
     ''Nike'', ''Adidas'', ''Puma'', ''Reebok'', ''Sony'', ''LG'', ''Dell'', ''HP'', ''Lenovo'',
     ''Lakme'', ''Maybelline'', ''Nykaa'', ''Loreal'']"

fun find_brand :: "jsstring list \<Rightarrow> jsstring \<Rightarrow> jsstring" where
  "find_brand [] productName = []"
| "find_brand (brandName # rest) productName =
     (if includes_js (toUpperCase productName) (toUpperCase brandName) then brandName
      else find_brand rest productName)"

text \<open>\<^verbatim>\<open>nameUpper.includes(a) || nameUpper.includes(b) || ...\<close>\<close>

definition includes_any :: "jsstring \<Rightarrow> string list \<Rightarrow> bool" where
  "includes_any s keys = (\<exists>key \<in> set keys. includes_js s (lit key))"

definition extractProductInfo :: "jsstring \<Rightarrow> jsstring \<Rightarrow> productInfo" where
  "extractProductInfo productName productUrl =
     (let productName' = name_or_Product productName;
          nameUpper = toUpperCase productName';
          category =
            (if includes_any nameUpper [''PHONE'', ''MOBILE'', ''SMARTPHONE'', ''LAPTOP'', ''TABLET'',
                  ''TV'', ''REFRIGERATOR'', ''HEADPHONE'']
             then lit ''electronics''
             else if includes_any nameUpper [''SHIRT'', ''JEANS'', ''SHOE'', ''DRESS'', ''SNEAKER'']
             then lit ''fashion''
             else if includes_any nameUpper [''SUNSCREEN'', ''CREAM'', ''SPF'', ''MOISTURIZER'',
                  ''MAKEUP'']
             then lit ''beauty''
             else lit ''general'')
      in \<lparr>info_name = productName', info_brand = find_brand brandPatterns productName',
          info_category = category, info_url = productUrl\<rparr>)"

text \<open>
  The range that \<^verbatim>\<open>estimateRealisticBasePrice\<close> detects from \<^verbatim>\<open>categoryRanges\<close>: the
  default of the category, replaced by the range of the product type that the name shows.
\<close>

definition pr :: "real \<Rightarrow> real \<Rightarrow> priceRange" where
  "pr lo hi = \<lparr>min_r = lo, max_r = hi\<rparr>"

definition productRange :: "jsstring \<Rightarrow> jsstring \<Rightarrow> priceRange" where
  "productRange category nameUpper =
     (if category = lit ''electronics'' then
        (if includes_any nameUpper [''PHONE'', ''SMARTPHONE'', ''MOBILE''] then pr 8000 100000
         else if includes_any nameUpper [''LAPTOP'', ''NOTEBOOK''] then pr 25000 150000
         else if includes_any nameUpper [''TABLET'', ''IPAD''] then pr 10000 80000
         else if includes_any nameUpper [''HEADPHONE'', ''EARPHONE'', ''EARBUDS''] then pr 1000 50000
         else if includes_any nameUpper [''TV'', ''TELEVISION''] then pr 15000 200000
         else if includes_any nameUpper [''REFRIGERATOR'', ''FRIDGE''] then pr 15000 100000
         else pr 5000 50000)
      else if category = lit ''fashion'' then
        (if includes_any nameUpper [''SHOE'', ''SNEAKER'', ''BOOT''] then pr 1500 15000
         else if includes_any nameUpper [''SHIRT'', ''T-SHIRT'', ''TOP''] then pr 500 5000
         else if includes_any nameUpper [''JEAN'', ''PANT'', ''TROUSER''] then pr 1000 8000
         else if includes_any nameUpper [''DRESS'', ''KURTI''] then pr 800 10000
         else pr 500 5000)
      else if category = lit ''beauty'' then
        (if includes_any nameUpper [''PERFUME'', ''FRAGRANCE''] then pr 800 8000
         else if includes_any nameUpper [''CREAM'', ''MOISTURIZER'', ''LOTION''] then pr 200 3000
         else if includes_any nameUpper [''SUNSCREEN'', ''SPF''] then pr 200 1500
         else if includes_any nameUpper [''MAKEUP'', ''FOUNDATION'', ''LIPSTICK''] then pr 300 5000
         else pr 200 2000)
      else pr 500 10000)"

definition generateUrlHash :: "jsstring \<Rightarrow> int" where
  "generateUrlHash url = \<bar>sint (foldl hash_step 0 url)\<bar>"

text \<open>
  With a URL the estimate is seeded from its hash; without one it takes a random number.
\<close>

definition estimateRealisticBasePrice :: "host \<Rightarrow> nat \<Rightarrow> productInfo \<Rightarrow> real \<times> nat" where
  "estimateRealisticBasePrice h k info =
     (let rng = productRange (info_category info) (toUpperCase (info_name info))
      in if info_url info \<noteq> [] then
           (let seededValue = sin (of_int (generateUrlHash (info_url info))) * 10000;
                normalizedSeed = \<bar>seededValue - of_int \<lfloor>seededValue\<rfloor>\<bar>
            in (of_int \<lfloor>normalizedSeed * (max_r rng - min_r rng + 1)\<rfloor> + min_r rng, k))
         else (of_int \<lfloor>random h k * (max_r rng - min_r rng + 1)\<rfloor> + min_r rng, k + 1))"

text \<open>\<^verbatim>\<open>getRelevantPlatforms\<close>: each platform with its price multiplier.\<close>

definition getRelevantPlatforms :: "jsstring \<Rightarrow> (jsstring \<times> real) list" where
  "getRelevantPlatforms category =
     [(lit ''Amazon'', 1), (lit ''Flipkart'', 98 / 100)] @
     (if category = lit ''fashion'' then [(lit ''Myntra'', 105 / 100), (lit ''Ajio'', 102 / 100)]
      else if category = lit ''beauty''
      then [(lit ''Nykaa'', 103 / 100), (lit ''Purplle'', 96 / 100)]
      else if category = lit ''electronics''
      then [(lit ''Croma'', 108 / 100), (lit ''Reliance Digital'', 104 / 100)]
      else [])"

definition baseCounts :: "(jsstring \<times> real \<times> real) list" where
  "baseCounts =
     [(lit ''Amazon'', 8, 25), (lit ''Flipkart'', 5, 18), (lit ''Myntra'', 3, 12),
      (lit ''Nykaa'', 2, 8), (lit ''Croma'', 1, 3), (lit ''Reliance Digital'', 1, 2)]"

definition getRealisticSellerCount :: "host \<Rightarrow> nat \<Rightarrow> jsstring \<Rightarrow> jsstring \<Rightarrow> real \<times> nat" where
  "getRealisticSellerCount h k platform category =
     (let (lo, hi) = (case map_of baseCounts platform of Some b \<Rightarrow> b | None \<Rightarrow> (3, 10));
          (lo', hi') = (if category = lit ''electronics''
                        then (of_int (round (lo * (15 / 10))), of_int (round (hi * (13 / 10))))
                        else (lo, hi))
      in (of_int \<lfloor>random h k * (hi' - lo' + 1)\<rfloor> + lo', k + 1))"

definition getRealisticAvailability :: "host \<Rightarrow> nat \<Rightarrow> jsstring \<Rightarrow> real \<Rightarrow> jsstring \<times> nat" where
  "getRealisticAvailability h k platform sellerCount =
     (if sellerCount > 10 then (lit ''In Stock'', k)
      else if sellerCount > 5
      then (if random h k > 1 / 10 then lit ''In Stock'' else lit ''Limited Stock'', k + 1)
      else if sellerCount > 2
      then (if random h k > 2 / 10 then lit ''In Stock'' else lit ''Few Left'', k + 1)
      else (if random h k > 3 / 10 then lit ''In Stock'' else lit ''Only 1-2 left'', k + 1))"

text \<open>
  One entry of \<^verbatim>\<open>prices\<close>. The field \<^verbatim>\<open>lastUpdated\<close> is left out; the random number drawn
  for it counts as an effect.
\<close>

record marketPrice =
  mp_platform :: jsstring
  mp_price :: real
  mp_sellerCount :: real
  mp_priceRange :: "real \<times> real"
  mp_availability :: jsstring

fun market_prices ::
    "host \<Rightarrow> nat \<Rightarrow> real \<Rightarrow> jsstring \<Rightarrow> (jsstring \<times> real) list \<Rightarrow> marketPrice list \<times> nat" where
  "market_prices h k basePrice category [] = ([], k)"
| "market_prices h k basePrice category ((platform, priceMultiplier) # rest) =
     (let (sellerCount, k1) = getRealisticSellerCount h k platform category;
          priceVariation = priceMultiplier * (95 / 100 + random h k1 * (1 / 10));
          finalPrice = of_int (round (basePrice * priceVariation));
          priceSpread = (if sellerCount > 10 then 15 / 100
                         else if sellerCount > 5 then 10 / 100 else 5 / 100);
          minPrice = of_int (round (finalPrice * (1 - priceSpread)));
          maxPrice = of_int (round (finalPrice * (1 + priceSpread)));
          (availability, k2) = getRealisticAvailability h (k1 + 1) platform sellerCount;
          (others, k3) = market_prices h (k2 + 1) basePrice category rest
      in (\<lparr>mp_platform = platform, mp_price = finalPrice, mp_sellerCount = sellerCount,
           mp_priceRange = (minPrice, maxPrice), mp_availability = availability\<rparr> # others, k3))"

text \<open>
  The response of the generator. The price history, which the comparison does not read,
  is left out; without a URL its seed is one more random number.
\<close>

record marketDataResponse =
  success :: bool
  data :: "marketPrice list option"

definition generateRealisticMarketData ::
    "host \<Rightarrow> nat \<Rightarrow> productInfo \<Rightarrow> jsstring \<Rightarrow> real option \<Rightarrow> marketDataResponse \<times> nat" where
  "generateRealisticMarketData h k info productUrl originalPrice =
     (let (basePrice, k1) =
            (case originalPrice of
               Some given \<Rightarrow> if given \<noteq> 0 \<and> given > 0 \<and> given < 500000 then (given, k)
                              else estimateRealisticBasePrice h k info
             | None \<Rightarrow> estimateRealisticBasePrice h k info);
          platforms = getRelevantPlatforms (info_category info);
          (prices, k2) = market_prices h k1 basePrice (info_category info) platforms;
          k3 = (if productUrl = [] then k2 + 1 else k2)
      in (\<lparr>success = True, data = Some prices\<rparr>, k3))"

definition fetchRealMarketData ::
    "host \<Rightarrow> nat \<Rightarrow> jsstring \<Rightarrow> jsstring \<Rightarrow> real option \<Rightarrow> marketDataResponse \<times> nat" where
  "fetchRealMarketData h k productName productUrl originalPrice =
     generateRealisticMarketData h k (extractProductInfo productName productUrl) productUrl
       originalPrice"

subsection \<open>The cross-platform comparison builder\<close>

text \<open>
  The text \<^verbatim>\<open>priceRange\<close> of a comparison is kept as the pair of numbers it is written
  from.
\<close>

record PriceComparison =
  pc_platform :: jsstring
  pc_price :: real
  pc_originalPrice :: "real option"
  pc_discountPercentage :: "real option"
  pc_discountAmount :: "real option"
  pc_availability :: jsstring
  pc_url :: jsstring
  pc_rating :: "real option"
  pc_reviewCount :: "real option"
  pc_deliveryTime :: "jsstring option"
  pc_sellerCount :: "real option"
  pc_priceRange :: "(real \<times> real) option"

definition deliveryOptions :: "(jsstring \<times> jsstring list) list" where
  "deliveryOptions =
     [(lit ''Amazon'', map lit [''Tomorrow'', ''2 days'', ''3 days'', ''Same day delivery'']),
      (lit ''Flipkart'', map lit [''2-3 days'', ''3-5 days'', ''Next day delivery'']),
      (lit ''Myntra'', map lit [''3-5 days'', ''5-7 days'', ''2-4 days'']),
      (lit ''Nykaa'', map lit [''3-4 days'', ''4-6 days'', ''5-7 days'']),
      (lit ''Croma'', map lit [''1-2 days'', ''2-3 days'', ''Same day delivery'']),
      (lit ''Reliance Digital'', map lit [''2-4 days'', ''3-5 days'', ''1-3 days''])]"

text \<open>An index outside the array reads \<^verbatim>\<open>undefined\<close>.\<close>

definition generateDeliveryTime :: "host \<Rightarrow> nat \<Rightarrow> jsstring \<Rightarrow> jsstring option \<times> nat" where
  "generateDeliveryTime h k platform =
     (let options = (case map_of deliveryOptions platform of
                       Some os \<Rightarrow> os
                     | None \<Rightarrow> map lit [''3-5 days'', ''5-7 days'', ''4-6 days'']);
          i = \<lfloor>random h k * real (length options)\<rfloor>
      in (if 0 \<le> i \<and> i < int (length options) then Some (options ! nat i) else None, k + 1))"

definition platformUrls :: "(jsstring \<times> jsstring) list" where
  "platformUrls =
     [(lit ''Amazon'', lit ''https://www.amazon.in/s?k=''),
      (lit ''Flipkart'', lit ''https://www.flipkart.com/search?q=''),
      (lit ''Myntra'', lit ''https://www.myntra.com/search?q=''),
      (lit ''Nykaa'', lit ''https://www.nykaa.com/search/result/?q=''),
      (lit ''Croma'', lit ''https://www.croma.com/search?q=''),
      (lit ''Reliance Digital'', lit ''https://www.reliancedigital.in/search?q=''),
      (lit ''Ajio'', lit ''https://www.ajio.com/search/?text=''),
      (lit ''Purplle'', lit ''https://www.purplle.com/search?q='')]"

text \<open>\<^verbatim>\<open>buildPlatformUrl\<close> throws (\<open>None\<close>) when \<^verbatim>\<open>encodeURIComponent\<close> does.\<close>

definition buildPlatformUrl :: "jsstring \<Rightarrow> jsstring \<Rightarrow> jsstring option" where
  "buildPlatformUrl platform productName =
     (case encodeURIComponent productName of
        None \<Rightarrow> None
      | Some encodedName \<Rightarrow>
          Some ((case map_of platformUrls platform of
                   Some prefix \<Rightarrow> prefix
                 | None \<Rightarrow> lit ''https://www.google.com/search?q='') @ encodedName))"

definition platformRatings :: "(jsstring \<times> real \<times> real) list" where
  "platformRatings =
     [(lit ''Amazon'', 38 / 10, 46 / 10), (lit ''Flipkart'', 37 / 10, 45 / 10),
      (lit ''Myntra'', 39 / 10, 44 / 10), (lit ''Nykaa'', 4, 45 / 10),
      (lit ''Croma'', 41 / 10, 46 / 10), (lit ''Reliance Digital'', 38 / 10, 44 / 10)]"

definition generateRealisticRating :: "host \<Rightarrow> nat \<Rightarrow> jsstring \<Rightarrow> real \<times> nat" where
  "generateRealisticRating h k platform =
     (let (lo, hi) = (case map_of platformRatings platform of
                        Some r \<Rightarrow> r
                      | None \<Rightarrow> (35 / 10, 45 / 10))
      in (of_int (round ((lo + random h k * (hi - lo)) * 10)) / 10, k + 1))"

definition generateRealisticReviewCount :: "host \<Rightarrow> nat \<Rightarrow> real \<Rightarrow> real \<times> nat" where
  "generateRealisticReviewCount h k sellerCount =
     (let baseReviews = sellerCount * (50 + random h k * 200);
          variation = 8 / 10 + random h (k + 1) * (4 / 10)
      in (of_int \<lfloor>baseReviews * variation\<rfloor>, k + 2))"

text \<open>
  The loop that converts the market data. The URL is built first in each record; when
  that throws, the error leaves the loop (\<open>None\<close>).
\<close>

fun market_comparisons ::
    "host \<Rightarrow> nat \<Rightarrow> jsstring \<Rightarrow> marketPrice list \<Rightarrow> PriceComparison list option" where
  "market_comparisons h k productName [] = Some []"
| "market_comparisons h k productName (priceData # rest) =
     (case buildPlatformUrl (mp_platform priceData) productName of
        None \<Rightarrow> None
      | Some url \<Rightarrow>
          let (rating, k1) = generateRealisticRating h k (mp_platform priceData);
              (reviewCount, k2) = generateRealisticReviewCount h k1 (mp_sellerCount priceData);
              (deliveryTime, k3) = generateDeliveryTime h k2 (mp_platform priceData)
          in map_option
               ((#) \<lparr>pc_platform = mp_platform priceData,
                     pc_price = mp_price priceData,
                     pc_originalPrice = None,
                     pc_discountPercentage = None,
                     pc_discountAmount = None,
                     pc_availability = mp_availability priceData,
                     pc_url = url,
                     pc_rating = Some rating,
                     pc_reviewCount = Some reviewCount,
                     pc_deliveryTime = deliveryTime,
                     pc_sellerCount = Some (mp_sellerCount priceData),
                     pc_priceRange = Some (mp_priceRange priceData)\<rparr>)
               (market_comparisons h k3 productName rest))"

text \<open>The record made from a product, for the original product and the similar ones.\<close>

definition comparison_of :: "host \<Rightarrow> nat \<Rightarrow> ProductData \<Rightarrow> PriceComparison" where
  "comparison_of h k product =
     \<lparr>pc_platform = pd_platform product,
      pc_price = pd_price product,
      pc_originalPrice = pd_originalPrice product,
      pc_discountPercentage = pd_discountPercentage product,
      pc_discountAmount = pd_discountAmount product,
      pc_availability = pd_availability product,
      pc_url = pd_url product,
      pc_rating = pd_rating product,
      pc_reviewCount = pd_reviewCount product,
      pc_deliveryTime = fst (generateDeliveryTime h k (pd_platform product)),
      pc_sellerCount = None,
      pc_priceRange = None\<rparr>"

fun similar_comparisons :: "host \<Rightarrow> nat \<Rightarrow> ProductData list \<Rightarrow> PriceComparison list" where
  "similar_comparisons h k [] = []"
| "similar_comparisons h k (product # rest) =
     comparison_of h k product # similar_comparisons h (k + 1) rest"

text \<open>
  The branch for a response without market data: the original product first, then the
  similar products; \<open>None\<close> when \<^verbatim>\<open>findSimilarProducts\<close> throws.
\<close>

definition fallback_comparisons ::
    "host \<Rightarrow> nat \<Rightarrow> ProductData \<Rightarrow> PriceComparison list option" where
  "fallback_comparisons h k originalProduct =
     (let (similarProducts, k1) = findSimilarProducts h (k + 1) originalProduct
      in map_option (\<lambda>similar. comparison_of h k originalProduct # similar_comparisons h k1 similar)
           similarProducts)"

definition analyzeProductFromUrl :: "host \<Rightarrow> nat \<Rightarrow> jsstring \<Rightarrow> ProductData option \<times> nat" where
  "analyzeProductFromUrl h k url = extractProductData h k url"

text \<open>
  \<^verbatim>\<open>getRealPriceComparisons\<close>. Its \<^verbatim>\<open>catch\<close> turns every thrown error into the empty list,
  as does a product that could not be analysed.
\<close>

definition getRealPriceComparisons ::
    "host \<Rightarrow> nat \<Rightarrow> ProductData option \<Rightarrow> jsstring \<Rightarrow> PriceComparison list" where
  "getRealPriceComparisons h k originalProduct productUrl =
     (let (analysed, k1) = (case originalProduct of
                              Some product \<Rightarrow> (Some product, k)
                            | None \<Rightarrow> analyzeProductFromUrl h k productUrl)
      in case analysed of
           None \<Rightarrow> []
         | Some product \<Rightarrow>
             let (marketData, k2) = fetchRealMarketData h k1 (pd_name product) productUrl
                                      (Some (pd_price product))
             in (case (if success marketData then data marketData else None) of
                   Some prices \<Rightarrow>
                     (case market_comparisons h k2 (pd_name product) prices of
                        None \<Rightarrow> []
                      | Some priceComparisons \<Rightarrow> priceComparisons)
                 | None \<Rightarrow>
                     (case fallback_comparisons h k2 product of
                        None \<Rightarrow> []
                      | Some priceComparisons \<Rightarrow> priceComparisons)))"

subsection \<open>Sample hosts, pages and products\<close>

text \<open>A host without network, and a page without any element.\<close>

definition dead_host :: host where
  "dead_host = \<lparr>random = (\<lambda>k. 0), fetch = (\<lambda>k url agent. None), parse_url = (\<lambda>url. None)\<rparr>"

definition empty_page :: page where
  "empty_page = \<lparr>elements = (\<lambda>sel. []), first_find = (\<lambda>sel sub. []),
     first_attr = (\<lambda>sel sub a. None)\<rparr>"

text \<open>
  An Amazon product page whose title has 149 characters followed by the emoji U+1F525,
  which UTF-16 writes as the surrogate pair D83D DD25, and whose price is 1,499 rupees.
\<close>

definition speaker_title :: jsstring where
  "speaker_title = lit ''Portable Bluetooth Speaker with Deep Bass, 24 Hours Playtime, IPX7 Waterproof, TWS Pairing, Built-in Mic, USB-C Fast Charging, for Travel and Outdoor'' @ [55357, 56613]"

definition speaker_page :: page where
  "speaker_page =
     \<lparr>elements = (\<lambda>sel. if sel = ''#productTitle'' then [speaker_title]
                         else if sel = ''.a-price .a-offscreen'' then [rupee # lit ''1,499'']
                         else []),
      first_find = (\<lambda>sel sub. []), first_attr = (\<lambda>sel sub a. None)\<rparr>"

definition speaker_host :: host where
  "speaker_host = \<lparr>random = (\<lambda>k. 0), fetch = (\<lambda>k url agent. Some speaker_page),
     parse_url = (\<lambda>url. None)\<rparr>"

definition speaker_url :: jsstring where
  "speaker_url = lit ''https://www.amazon.in/dp/B0SPEAKER''"

text \<open>A lipstick found on Nykaa and a phone found on Flipkart.\<close>

definition lipstick :: ProductData where
  "lipstick = \<lparr>pd_name = lit ''Matte Lipstick'', pd_price = 499, pd_originalPrice = None,
     pd_discountPercentage = None, pd_discountAmount = None, pd_rating = None,
     pd_reviewCount = None, pd_availability = lit ''In Stock'', pd_features = [],
     pd_platform = lit ''Nykaa'', pd_url = lit ''https://www.nykaa.com/matte-lipstick/p/1''\<rparr>"

definition galaxy :: ProductData where
  "galaxy = \<lparr>pd_name = lit ''Samsung Galaxy Phone'', pd_price = 15999, pd_originalPrice = None,
     pd_discountPercentage = None, pd_discountAmount = None, pd_rating = None,
     pd_reviewCount = None, pd_availability = lit ''In Stock'', pd_features = [],
     pd_platform = lit ''Flipkart'', pd_url = lit ''https://www.flipkart.com/galaxy/p/1''\<rparr>"

section \<open>Properties\<close>

subsection \<open>Evaluation\<close>

lemmas string_eval = lit_def rupee_def deva_la_def is_digit_def js_space_def trim_def
  upper_cu_def lower_cu_def toUpperCase_def toLowerCase_def

lemmas extractPrice_eval = extractPrice_def kept_def formats_def format1_def format2_def
  format3_def format4_def format5_def format6_def format7_def match_here_def Plus_def Chr_def
  Ci_def fraction_def opt_rupee_def digit_or_comma_def digit_or_dot_def parseFloat_def
  digits_value_def suffix_multiplier_def round_def

lemma extractPrice_rupee_grouped: "extractPrice (rupee # lit ''1,234.50'') = 1235"
  by (simp add: string_eval extractPrice_eval)

lemma extractPrice_rupee_lakh: "extractPrice (rupee # lit ''2.5 L'') = 250000"
  by (simp add: string_eval extractPrice_eval)

lemma extractPrice_rs: "extractPrice (lit ''Rs. 999'') = 999"
  by (simp add: string_eval extractPrice_eval)

lemma extractPrice_no_digits: "extractPrice (lit ''out of stock'') = 0"
  by (simp add: string_eval extractPrice_eval)

lemma extractPrice_rupee_zero: "extractPrice (rupee # lit ''0'') = 0"
  by (simp add: string_eval extractPrice_eval)

lemma selectedRange_tv_cream:
  "selectedRange (lit ''tv cream'') = \<lparr>min_r = 15000, max_r = 200000\<rparr>"
  by (simp add: selectedRange_def priceRanges_def string_eval)

lemma validate_cheap_phone:
  "validatePriceByCategory 500 (lit ''Phone'') (lit ''Amazon'')
     = \<lparr>isValid = False, suggestedPrice = Some 8000\<rparr>"
  by (simp add: validatePriceByCategory_def validationRanges_def vrange_def string_eval)

subsection \<open>The text of a capture group\<close>

lemma iter_consumes:
  assumes step: "\<And>s t. t \<in> set (f s) \<Longrightarrow> \<exists>pre. s = pre @ t \<and> (\<forall>c \<in> set pre. A c)"
  shows "t \<in> set (iter n f s) \<Longrightarrow> \<exists>pre. s = pre @ t \<and> (\<forall>c \<in> set pre. A c)"
proof (induction n arbitrary: s)
  case 0
  then show ?case by simp
next
  case (Suc n)
  from Suc.prems consider "t = s" | u where "u \<in> set (f s)" "t \<in> set (iter n f u)"
    by auto
  then show ?case
  proof cases
    case 1
    then show ?thesis by simp
  next
    case 2
    from step [OF 2(1)] obtain p1 where p1: "s = p1 @ u" "\<forall>c \<in> set p1. A c"
      by blast
    from Suc.IH [OF 2(2)] obtain p2 where p2: "u = p2 @ t" "\<forall>c \<in> set p2. A c"
      by blast
    from p1 p2 have "s = (p1 @ p2) @ t \<and> (\<forall>c \<in> set (p1 @ p2). A c)"
      by auto
    then show ?thesis by blast
  qed
qed

lemma ms_consumes:
  "t \<in> set (ms r s) \<Longrightarrow> \<exists>pre. s = pre @ t \<and> (\<forall>c \<in> set pre. alphabet r c)"
proof (induction r arbitrary: s t)
  case (Sym p)
  then show ?case
    by (cases s) (auto split: if_splits)
next
  case (Cat a b)
  from Cat.prems obtain u where u: "u \<in> set (ms a s)" "t \<in> set (ms b u)"
    by auto
  from Cat.IH(1) [OF u(1)] obtain p1 where p1: "s = p1 @ u" "\<forall>c \<in> set p1. alphabet a c"
    by blast
  from Cat.IH(2) [OF u(2)] obtain p2 where p2: "u = p2 @ t" "\<forall>c \<in> set p2. alphabet b c"
    by blast
  from p1 p2 have "s = (p1 @ p2) @ t \<and> (\<forall>c \<in> set (p1 @ p2). alphabet (Cat a b) c)"
    by auto
  then show ?case by blast
next
  case (Opt a)
  then show ?case by auto
next
  case (Star a)
  from iter_consumes [of "ms a" "alphabet a" t "length s" s] Star show ?case
    by auto
next
  case Eps
  then show ?case by simp
qed

lemma match_here_group:
  assumes "match_here p s = Some g"
  shows "\<forall>c \<in> set g. alphabet (group p) c"
proof -
  define all where "all = concat (map (\<lambda>r1. concat (map (\<lambda>r2. map (\<lambda>r3. take (length r1 - length r2) r1)
                                                 (ms (after p) r2))
                                       (ms (group p) r1)))
                       (ms (before p) s))"
  from assms obtain rest where "all = g # rest"
    by (auto simp: match_here_def all_def split: list.splits)
  then have "g \<in> set all"
    by simp
  then obtain r1 r2 where r: "r2 \<in> set (ms (group p) r1)" "g = take (length r1 - length r2) r1"
    by (auto simp: all_def)
  from ms_consumes [OF r(1)] obtain pre where "r1 = pre @ r2" "\<forall>c \<in> set pre. alphabet (group p) c"
    by blast
  with r(2) show ?thesis by simp
qed

lemma match_rx_group: "match_rx p s = Some g \<Longrightarrow> \<forall>c \<in> set g. alphabet (group p) c"
  by (induction s) (auto split: option.splits dest: match_here_group)

lemma formats_group_alphabet:
  "f \<in> set formats \<Longrightarrow> alphabet (group f) c \<Longrightarrow> is_digit c \<or> c = 44 \<or> c = 46"
  by (auto simp: formats_def format1_def format2_def format3_def format4_def format5_def
        format6_def format7_def Plus_def fraction_def Chr_def digit_or_comma_def digit_or_dot_def)

lemma parsed_text_digits_and_dots:
  assumes "f \<in> set formats" "match_rx f cleanedText = Some g"
  shows "\<forall>c \<in> set (filter (\<lambda>c. c \<noteq> 44) g). is_digit c \<or> c = 46"
  using match_rx_group [OF assms(2)] formats_group_alphabet [OF assms(1)] by auto

subsection \<open>The normalizer never returns a negative number\<close>

lemma parseFloat_nonneg: "parseFloat s = Some x \<Longrightarrow> 0 \<le> x"
  by (auto simp: parseFloat_def Let_def split: if_splits)

lemma suffix_multiplier_pos: "0 < suffix_multiplier u"
  by (simp add: suffix_multiplier_def)

lemma try_formats_nonneg: "0 \<le> try_formats fs cleaned priceText"
proof (induction fs)
  case Nil
  then show ?case by simp
next
  case (Cons f fs)
  have "0 \<le> round (x * suffix_multiplier u)" if "0 \<le> x" for x u
  proof -
    have "0 \<le> x * suffix_multiplier u"
      using that suffix_multiplier_pos [of u] by simp
    then show ?thesis by (simp add: round_def)
  qed
  with Cons show ?case
    by (auto split: option.splits dest!: parseFloat_nonneg)
qed

lemma extractPrice_nonneg: "0 \<le> extractPrice t"
  by (simp add: extractPrice_def try_formats_nonneg)

subsection \<open>The estimator stays inside the selected range\<close>

lemma frac_bounds: "0 \<le> \<bar>x - of_int \<lfloor>x\<rfloor>\<bar> \<and> \<bar>x - of_int \<lfloor>x :: real\<rfloor>\<bar> < 1"
  by linarith

lemma scaled_floor_bounds:
  fixes n lo hi :: real
  assumes n: "0 \<le> n" "n < 1" and le: "lo \<le> hi" and ints: "lo \<in> \<int>" "hi \<in> \<int>"
  shows "lo \<le> of_int \<lfloor>n * (hi - lo + 1)\<rfloor> + lo \<and> of_int \<lfloor>n * (hi - lo + 1)\<rfloor> + lo \<le> hi"
proof -
  from ints obtain a b :: int where ab: "lo = of_int a" "hi = of_int b"
    by (auto elim!: Ints_cases)
  define k where "k = b - a + 1"
  have k: "hi - lo + 1 = of_int k" "0 < k"
    using le by (simp_all add: ab k_def)
  have "0 \<le> n * of_int k"
    using n k by simp
  then have lower: "0 \<le> \<lfloor>n * of_int k\<rfloor>"
    by simp
  have "n * of_int k < of_int k"
    using n k by simp
  then have "\<lfloor>n * of_int k\<rfloor> < k"
    by (simp add: floor_less_iff)
  then have upper: "\<lfloor>n * of_int k\<rfloor> \<le> b - a"
    by (simp add: k_def)
  have up: "(of_int \<lfloor>n * of_int k\<rfloor> :: real) \<le> hi - lo"
    using upper unfolding ab of_int_diff [symmetric] by (simp only: of_int_le_iff)
  have lo: "(0::real) \<le> of_int \<lfloor>n * of_int k\<rfloor>"
    using lower by simp
  show ?thesis
    unfolding k(1) using up lo by linarith
qed

lemma priceRanges_sound: "\<forall>(k, r) \<in> set priceRanges. sound_range r"
  by (simp add: priceRanges_def sound_range_def)

lemma select_range_in:
  "select_range tab name sel = sel \<or> select_range tab name sel \<in> snd ` set tab"
  by (induction tab name sel rule: select_range.induct) auto

lemma selectedRange_sound: "sound_range (selectedRange s)"
proof -
  have "sound_range \<lparr>min_r = 500, max_r = 10000\<rparr>"
    by (simp add: sound_range_def)
  then show ?thesis
    using select_range_in [of priceRanges "toLowerCase s" "\<lparr>min_r = 500, max_r = 10000\<rparr>"]
      priceRanges_sound
    by (auto simp: selectedRange_def)
qed

lemma generateReasonablePrice_in_range:
  "min_r (selectedRange s) \<le> generateReasonablePrice s \<and>
   generateReasonablePrice s \<le> max_r (selectedRange s)"
  using selectedRange_sound [of s]
    scaled_floor_bounds [of "\<bar>sin (of_int (generateSimpleHash s)) * 10000
        - of_int \<lfloor>sin (of_int (generateSimpleHash s)) * 10000 :: real\<rfloor>\<bar>"
      "min_r (selectedRange s)" "max_r (selectedRange s)"]
    frac_bounds [of "sin (of_int (generateSimpleHash s)) * 10000"]
  by (simp add: generateReasonablePrice_def sound_range_def Let_def)

lemma generateReasonablePrice_abs:
  "10 \<le> generateReasonablePrice s \<and> generateReasonablePrice s \<le> 500000"
  using generateReasonablePrice_in_range [of s] selectedRange_sound [of s]
  by (simp add: sound_range_def)

subsection \<open>Doubles\<close>






subsection \<open>The validator's suggestion\<close>

lemma validationRanges_sound: "\<forall>(k, r) \<in> set validationRanges. sound_validation r"
  by (simp add: validationRanges_def sound_validation_def vrange_def)

lemma detect_type_in:
  "detect_type tab name = Some (t, r) \<Longrightarrow> (t, r) \<in> set tab \<and> includes_js name t"
  by (induction tab name rule: detect_type.induct) (auto split: if_splits)

lemma detect_type_sound:
  "detect_type validationRanges name = Some (t, r) \<Longrightarrow> sound_validation r"
  using detect_type_in [of validationRanges name t r] validationRanges_sound by auto

lemma suggested_bounds:
  assumes "\<not> isValid (validatePriceByCategory p n pl)"
  shows "\<exists>v. suggestedPrice (validatePriceByCategory p n pl) = Some v \<and> 10 \<le> v \<and> v \<le> 500000"
proof -
  from assms obtain t r where d: "detect_type validationRanges (toLowerCase n) = Some (t, r)"
    by (cases "detect_type validationRanges (toLowerCase n)")
       (auto simp: validatePriceByCategory_def)
  from detect_type_sound [OF d] have "sound_validation r" .
  then show ?thesis using assms d
    by (auto simp: validatePriceByCategory_def sound_validation_def split: if_splits)
qed

lemma validateAndNormalizePrice_pos:
  assumes "0 < p"
  shows "10 \<le> validateAndNormalizePrice p n pl \<and> validateAndNormalizePrice p n pl \<le> 500000"
proof (cases "p > 500000 \<or> p < 10")
  case True
  then show ?thesis using assms generateReasonablePrice_abs [of n]
    by (auto simp: validateAndNormalizePrice_def)
next
  case inside: False
  show ?thesis
  proof (cases "isValid (validatePriceByCategory p n pl)")
    case True
    then show ?thesis using assms inside
      by (simp add: validateAndNormalizePrice_def)
  next
    case False
    from suggested_bounds [OF False] obtain v where
      "suggestedPrice (validatePriceByCategory p n pl) = Some v" "10 \<le> v" "v \<le> 500000"
      by blast
    then show ?thesis using assms inside False
      by (simp add: validateAndNormalizePrice_def)
  qed
qed

lemma validateAndNormalizePrice_nonpos: "p \<le> 0 \<Longrightarrow> validateAndNormalizePrice p n pl = 0"
  by (simp add: validateAndNormalizePrice_def)

subsection \<open>The page extractors\<close>

lemma find_price_nonneg: "0 \<le> find_price p sels"
  by (induction sels) (auto simp: Let_def)

lemma find_price_zero_iff:
  "find_price p sels = 0 \<longleftrightarrow> (\<forall>sel \<in> set sels. extractPrice (text_first p sel) = 0)"
proof (induction sels)
  case Nil
  then show ?case by simp
next
  case (Cons sel sels)
  have "extractPrice (text_first p sel) = 0" if "text_first p sel = []"
    using that by (simp add: extractPrice_def)
  moreover have "0 < extractPrice (text_first p sel) \<longleftrightarrow> extractPrice (text_first p sel) \<noteq> 0"
    using extractPrice_nonneg [of "text_first p sel"] by auto
  ultimately show ?case
    using Cons by (auto simp: Let_def)
qed

lemma validated_price_nonzero:
  "0 < rawPrice \<Longrightarrow> validateAndNormalizePrice rawPrice productName platform \<noteq> 0"
  using validateAndNormalizePrice_pos [of rawPrice productName platform] by simp

lemma extractAmazonData_None:
  "amazon_name p = [] \<or> find_price p amazon_price_selectors = 0 \<Longrightarrow> extractAmazonData p url = None"
  by (auto simp: extractAmazonData_def extractAmazonPrices_def Let_def)

lemma extractFlipkartData_None:
  "flipkart_name p = [] \<or> find_price p flipkart_price_selectors = 0 \<Longrightarrow>
   extractFlipkartData p url = None"
  by (auto simp: extractFlipkartData_def extractFlipkartPrices_def Let_def)

lemma extractAmazonData_Some:
  assumes "amazon_name p \<noteq> []" "find_price p amazon_price_selectors \<noteq> 0"
  shows "\<exists>d. extractAmazonData p url = Some d \<and> pd_name d = take 150 (amazon_name p)
           \<and> pd_platform d = lit ''Amazon''"
proof -
  have "0 < find_price p amazon_price_selectors"
    using assms(2) find_price_nonneg [of p amazon_price_selectors] by simp
  from validated_price_nonzero [OF this, of "amazon_name p" "lit ''Amazon''"] assms show ?thesis
    by (simp add: extractAmazonData_def extractAmazonPrices_def Let_def)
qed

lemma generateReasonablePrice_empty: "generateReasonablePrice [] = 500"
  by (simp add: generateReasonablePrice_def selectedRange_def priceRanges_def
        generateSimpleHash_def toLowerCase_def lit_def Let_def)

lemma empty_page_generic:
  "generic_name empty_page = [] \<and> find_price empty_page sels = 0 \<and> find_mrp empty_page sels' x = None"
proof -
  have "find_price empty_page sels = 0"
    by (induction sels) (simp_all add: text_first_def empty_page_def trim_def)
  moreover have "find_mrp empty_page sels' x = None"
    by (induction sels') (simp_all add: text_first_def empty_page_def trim_def)
  ultimately show ?thesis
    by (simp add: generic_name_def text_first_def text_all_def empty_page_def trim_def)
qed

lemma validate_estimate_Product:
  "validateAndNormalizePrice 500 (lit ''Product'') platform = 500"
  by (simp add: validateAndNormalizePrice_def validatePriceByCategory_def validationRanges_def
        string_eval Let_def)

subsection \<open>The comparison builder\<close>

lemma surrogates_not_unreserved:
  "is_high_surrogate c \<Longrightarrow> \<not> uri_unreserved c" "is_low_surrogate c \<Longrightarrow> \<not> uri_unreserved c"
  by (auto simp: is_high_surrogate_def is_low_surrogate_def uri_unreserved_def is_digit_def)

lemma surrogates_disjoint: "is_high_surrogate c \<Longrightarrow> \<not> is_low_surrogate c"
  by (simp add: is_high_surrogate_def is_low_surrogate_def)

text \<open>\<^verbatim>\<open>encodeURIComponent\<close> throws exactly on the strings that are not well formed.\<close>

lemma encodeURIComponent_throws: "encodeURIComponent s = None \<longleftrightarrow> \<not> isWellFormed s"
proof (induction s rule: isWellFormed.induct)
  case 1
  then show ?case by simp
next
  case (2 c)
  then show ?case
    by (auto simp: surrogates_not_unreserved)
next
  case (3 c d ds)
  show ?case
  proof (cases "is_high_surrogate c")
    case True
    with 3 show ?thesis
      by (auto simp: surrogates_not_unreserved surrogates_disjoint)
  next
    case False
    with 3 show ?thesis
      by (auto simp: surrogates_not_unreserved simp del: encodeURIComponent.simps(2)
            simp add: encodeURIComponent.simps(2) [of c "d # ds"])
  qed
qed

lemma market_prices_platforms:
  "map mp_platform (fst (market_prices h k basePrice category platforms)) = map fst platforms"
  by (induction platforms arbitrary: k) (auto simp: Let_def split_beta)

lemma market_comparisons_ok:
  "encodeURIComponent productName \<noteq> None \<Longrightarrow>
   \<exists>cs. market_comparisons h k productName prices = Some cs \<and>
        map pc_platform cs = map mp_platform prices"
proof (induction prices arbitrary: k)
  case Nil
  then show ?case by simp
next
  case (Cons priceData rest)
  then obtain u where u: "buildPlatformUrl (mp_platform priceData) productName = Some u"
    by (auto simp: buildPlatformUrl_def split: option.splits)
  define k3 where "k3 = snd (generateDeliveryTime h
      (snd (generateRealisticReviewCount h (snd (generateRealisticRating h k (mp_platform priceData)))
         (mp_sellerCount priceData))) (mp_platform priceData))"
  from Cons.IH [OF Cons.prems, of k3] obtain cs where
    "market_comparisons h k3 productName rest = Some cs" "map pc_platform cs = map mp_platform rest"
    by blast
  then show ?case
    using u by (simp add: Let_def split_beta k3_def)
qed

lemma market_comparisons_throws:
  "encodeURIComponent productName = None \<Longrightarrow> prices \<noteq> [] \<Longrightarrow>
   market_comparisons h k productName prices = None"
  by (cases prices) (auto simp: buildPlatformUrl_def)

lemma getRelevantPlatforms_first_two:
  "take 2 (map fst (getRelevantPlatforms category)) = [lit ''Amazon'', lit ''Flipkart'']"
  by (simp add: getRelevantPlatforms_def)

text \<open>The generator always answers with success and with one price for each platform.\<close>

lemma fetchRealMarketData_succeeds:
  "success (fst (fetchRealMarketData h k productName url price)) \<and>
   (\<exists>prices. data (fst (fetchRealMarketData h k productName url price)) = Some prices \<and>
      map mp_platform prices
        = map fst (getRelevantPlatforms (info_category (extractProductInfo productName url))))"
  using market_prices_platforms
  apply (simp add: fetchRealMarketData_def generateRealisticMarketData_def Let_def split: prod.splits)
  by (metis fst_conv)

lemma analyzeProductFromUrl_Some: "\<exists>product. fst (analyzeProductFromUrl h k url) = Some product"
  by (auto simp: analyzeProductFromUrl_def extractProductData_def Let_def
        split: prod.splits option.splits)

lemma comparisons_of_product:
  assumes res: "(case originalProduct of Some p \<Rightarrow> Some p
                 | None \<Rightarrow> fst (analyzeProductFromUrl h k url)) = Some product"
  shows "isWellFormed (pd_name product) \<Longrightarrow>
           map pc_platform (getRealPriceComparisons h k originalProduct url)
             = map fst (getRelevantPlatforms
                 (info_category (extractProductInfo (pd_name product) url)))"
    and "\<not> isWellFormed (pd_name product) \<Longrightarrow> getRealPriceComparisons h k originalProduct url = []"
proof -
  define k1 where
    "k1 = (case originalProduct of Some p \<Rightarrow> k | None \<Rightarrow> snd (analyzeProductFromUrl h k url))"
  define md where
    "md = fetchRealMarketData h k1 (pd_name product) url (Some (pd_price product))"
  from fetchRealMarketData_succeeds [of h k1 "pd_name product" url "Some (pd_price product)"]
  obtain prices where md: "success (fst md)" "data (fst md) = Some prices"
    and pl: "map mp_platform prices
      = map fst (getRelevantPlatforms (info_category (extractProductInfo (pd_name product) url)))"
    unfolding md_def by blast
  have unfold: "getRealPriceComparisons h k originalProduct url =
    (case market_comparisons h (snd md) (pd_name product) prices of None \<Rightarrow> [] | Some cs \<Rightarrow> cs)"
    using res md
    by (cases originalProduct)
       (simp_all add: getRealPriceComparisons_def split_beta md_def k1_def)
  {
    assume "isWellFormed (pd_name product)"
    then have "encodeURIComponent (pd_name product) \<noteq> None"
      by (simp add: encodeURIComponent_throws)
    from market_comparisons_ok [OF this, of h "snd md" prices] obtain cs where
      "market_comparisons h (snd md) (pd_name product) prices = Some cs"
      "map pc_platform cs = map mp_platform prices"
      by blast
    then show "map pc_platform (getRealPriceComparisons h k originalProduct url)
             = map fst (getRelevantPlatforms
                 (info_category (extractProductInfo (pd_name product) url)))"
      by (simp add: unfold pl)
  }
  {
    assume "\<not> isWellFormed (pd_name product)"
    then have enc: "encodeURIComponent (pd_name product) = None"
      by (simp add: encodeURIComponent_throws)
    have "prices \<noteq> []"
      using pl by (auto simp: getRelevantPlatforms_def)
    from market_comparisons_throws [OF enc this]
    show "getRealPriceComparisons h k originalProduct url = []"
      by (simp add: unfold)
  }
qed

lemma fallback_comparisons_first:
  "fallback_comparisons h k product = Some cs \<Longrightarrow>
   cs \<noteq> [] \<and> pc_platform (hd cs) = pd_platform product"
  by (auto simp: fallback_comparisons_def comparison_of_def split_beta)

lemma lipstick_category:
  "info_category (extractProductInfo (lit ''Matte Lipstick'') u) = lit ''general''"
  by (simp add: extractProductInfo_def name_or_Product_def includes_any_def string_eval Let_def)

lemma lipstick_wf: "isWellFormed (lit ''Matte Lipstick'')"
  by (simp add: lit_def is_high_surrogate_def is_low_surrogate_def)

lemma galaxy_category:
  "info_category (extractProductInfo (lit ''Samsung Galaxy Phone'') u) = lit ''electronics''"
  by (simp add: extractProductInfo_def name_or_Product_def includes_any_def string_eval Let_def)

lemma galaxy_wf: "isWellFormed (lit ''Samsung Galaxy Phone'')"
  by (simp add: lit_def is_high_surrogate_def is_low_surrogate_def)

lemma speaker_name: "amazon_name speaker_page = speaker_title"
  by (simp add: amazon_name_def text_all_def speaker_page_def speaker_title_def string_eval)

lemma speaker_price: "find_price speaker_page amazon_price_selectors = 1499"
  by (simp add: amazon_price_selectors_def text_first_def speaker_page_def string_eval
        extractPrice_eval)

lemma speaker_platform: "detectPlatform speaker_url = lit ''Amazon''"
  by (simp add: detectPlatform_def speaker_url_def string_eval)

lemma speaker_analysed:
  "\<exists>d. fst (analyzeProductFromUrl speaker_host 0 speaker_url) = Some d
     \<and> pd_name d = take 150 speaker_title"
proof -
  have "speaker_title \<noteq> []"
    by (simp add: speaker_title_def)
  with extractAmazonData_Some [of speaker_page speaker_url]
  obtain d where "extractAmazonData speaker_page speaker_url = Some d"
    "pd_name d = take 150 speaker_title"
    by (auto simp: speaker_name speaker_price)
  then show ?thesis
    by (simp add: analyzeProductFromUrl_def extractProductData_def speaker_platform
          fetchPageContent_def speaker_host_def)
qed

lemma speaker_not_wf: "\<not> isWellFormed (take 150 speaker_title)"
  by (simp add: speaker_title_def lit_def is_high_surrogate_def is_low_surrogate_def)

section \<open>The claims\<close>

text \<open>
  C1, as amended. \<^verbatim>\<open>getRealPriceComparisons\<close> never throws (it is a total function: its
  \<^verbatim>\<open>catch\<close> answers every error with the empty list) and always identifies a product, the
  one it was given or the one analysed from the URL. Whatever the network does, the result
  has at least two records when the name of that product is well-formed UTF-16.
\<close>

theorem getRealPriceComparisons_nonempty:
  "\<exists>product.
     (case originalProduct of Some p \<Rightarrow> Some p
      | None \<Rightarrow> fst (analyzeProductFromUrl h k url)) = Some product \<and>
     (isWellFormed (pd_name product) \<longrightarrow>
        2 \<le> length (getRealPriceComparisons h k originalProduct url))"
proof -
  obtain product where res: "(case originalProduct of Some p \<Rightarrow> Some p
      | None \<Rightarrow> fst (analyzeProductFromUrl h k url)) = Some product"
    using analyzeProductFromUrl_Some [of h k url] by (cases originalProduct) auto
  have "2 \<le> length (getRealPriceComparisons h k originalProduct url)"
    if "isWellFormed (pd_name product)"
  proof -
    have "length (map pc_platform (getRealPriceComparisons h k originalProduct url))
        = length (getRelevantPlatforms (info_category (extractProductInfo (pd_name product) url)))"
      using comparisons_of_product(1) [OF res that] by (metis length_map)
    then show ?thesis
      by (simp add: getRelevantPlatforms_def)
  qed
  with res show ?thesis
    by blast
qed

text \<open>
  The witness: a product that was given, and a URL analysed while every request fails, so
  that the product is the fallback data named \<^verbatim>\<open>Product\<close>.
\<close>

theorem getRealPriceComparisons_nonempty_witness:
  "isWellFormed (pd_name lipstick) \<and>
   2 \<le> length (getRealPriceComparisons dead_host 0 (Some lipstick) (pd_url lipstick)) \<and>
   fst (analyzeProductFromUrl dead_host 0 speaker_url)
     = Some (generateFallbackData dead_host speaker_url (lit ''Amazon'')) \<and>
   pd_name (generateFallbackData dead_host speaker_url (lit ''Amazon'')) = lit ''Product'' \<and>
   2 \<le> length (getRealPriceComparisons dead_host 0 None speaker_url)"
proof -
  have wf: "isWellFormed (pd_name lipstick)"
    by (simp add: lipstick_def lipstick_wf)
  from getRealPriceComparisons_nonempty
      [where originalProduct = "Some lipstick" and h = dead_host and k = 0
         and url = "pd_url lipstick"]
    wf
  have given: "2 \<le> length (getRealPriceComparisons dead_host 0 (Some lipstick) (pd_url lipstick))"
    by simp
  have analysed: "fst (analyzeProductFromUrl dead_host 0 speaker_url)
     = Some (generateFallbackData dead_host speaker_url (lit ''Amazon''))"
    by (simp add: analyzeProductFromUrl_def extractProductData_def fetchPageContent_def
          speaker_platform dead_host_def)
  have named: "pd_name (generateFallbackData dead_host speaker_url (lit ''Amazon'')) = lit ''Product''"
    by (simp add: generateFallbackData_def extractProductNameFromUrl_def name_or_Product_def
          dead_host_def lit_def Let_def)
  have "isWellFormed (lit ''Product'')"
    by (simp add: lit_def is_high_surrogate_def is_low_surrogate_def)
  with getRealPriceComparisons_nonempty
      [where originalProduct = None and h = dead_host and k = 0 and url = speaker_url]
    analysed named
  have "2 \<le> length (getRealPriceComparisons dead_host 0 None speaker_url)"
    by auto
  with wf given analysed named show ?thesis
    by blast
qed

text \<open>
  The claim as stated fails. The page of \<open>speaker_host\<close> is fetched and read without any
  failure; \<^verbatim>\<open>name.substring(0, 150)\<close> cuts the title between the two halves of the emoji,
  and the comparison for the product so named is empty.
\<close>

theorem getRealPriceComparisons_empty:
  "getRealPriceComparisons speaker_host 0 None speaker_url = []"
proof -
  from speaker_analysed obtain d where
    d: "fst (analyzeProductFromUrl speaker_host 0 speaker_url) = Some d"
      "pd_name d = take 150 speaker_title"
    by blast
  have res: "(case None of Some p \<Rightarrow> Some p
      | None \<Rightarrow> fst (analyzeProductFromUrl speaker_host 0 speaker_url)) = Some d"
    using d(1) by simp
  show ?thesis
    using comparisons_of_product(2) [OF res] speaker_not_wf d(2) by simp
qed

text \<open>
  C2. The normalizer on the three examples of the specification. The code rounds its
  result to a whole number (\<^verbatim>\<open>Math.round\<close>), so the first example yields 1235 and not
  1234.50; the other two yield 250000 and 999 as stated.
\<close>

theorem extractPrice_examples:
  "extractPrice (rupee # lit ''1,234.50'') = 1235 \<and>
   extractPrice (rupee # lit ''2.5 L'') = 250000 \<and>
   extractPrice (lit ''Rs. 999'') = 999"
  using extractPrice_rupee_grouped extractPrice_rupee_lakh extractPrice_rs by simp

text \<open>The claim as stated fails on its first example.\<close>

theorem extractPrice_keeps_no_fraction:
  "extractPrice (rupee # lit ''1,234.50'') \<noteq> 12345 / 10"
  using extractPrice_rupee_grouped by simp

text \<open>
  C4, as amended. Every estimate lies within the absolute bounds 10 and 500000 and within
  the range that the estimator selected: the range of the first keyword, in the order of
  its own table, that the lower-cased name includes, and the default range when there is
  none.
\<close>

theorem generateReasonablePrice_bounds:
  "10 \<le> generateReasonablePrice s \<and> generateReasonablePrice s \<le> 500000 \<and>
   min_r (selectedRange s) \<le> generateReasonablePrice s \<and>
   generateReasonablePrice s \<le> max_r (selectedRange s)"
  using generateReasonablePrice_abs [of s] generateReasonablePrice_in_range [of s] by simp

theorem generateReasonablePrice_bounds_witness:
  "15000 \<le> generateReasonablePrice (lit ''tv cream'') \<and>
   generateReasonablePrice (lit ''tv cream'') \<le> 200000"
  using generateReasonablePrice_bounds [of "lit ''tv cream''"]
  by (simp add: selectedRange_tv_cream)

text \<open>
  The claim as stated fails on a name with two keywords: \<^verbatim>\<open>tv cream\<close> includes the
  keyword \<^verbatim>\<open>cream\<close>, the estimator selects \<^verbatim>\<open>tv\<close>, which comes first in its table, and
  the estimate exceeds the range of \<^verbatim>\<open>cream\<close> in the estimator's table and in the
  validator's, so that the validator rejects it.
\<close>

theorem generateReasonablePrice_other_keyword:
  "includes_js (toLowerCase (lit ''tv cream'')) (lit ''cream'') \<and>
   (lit ''cream'', \<lparr>min_r = 200, max_r = 3000\<rparr>) \<in> set priceRanges \<and>
   3000 < generateReasonablePrice (lit ''tv cream'') \<and>
   \<not> isValid (validatePriceByCategory (generateReasonablePrice (lit ''tv cream''))
        (lit ''tv cream'') (lit ''Amazon''))"
proof -
  have inc: "includes_js (toLowerCase (lit ''tv cream'')) (lit ''cream'')"
    by (simp add: string_eval)
  have tab: "(lit ''cream'', \<lparr>min_r = 200, max_r = 3000\<rparr>) \<in> set priceRanges"
    by (simp add: priceRanges_def)
  have big: "15000 \<le> generateReasonablePrice (lit ''tv cream'')"
    using generateReasonablePrice_in_range [of "lit ''tv cream''"]
    by (simp add: selectedRange_tv_cream)
  have det: "detect_type validationRanges (toLowerCase (lit ''tv cream''))
      = Some (lit ''cream'', vrange 50 10000 200 2500)"
    by (simp add: validationRanges_def string_eval)
  have "\<not> isValid (validatePriceByCategory (generateReasonablePrice (lit ''tv cream''))
        (lit ''tv cream'') (lit ''Amazon''))"
    using big by (simp add: validatePriceByCategory_def det vrange_def)
  with inc tab big show ?thesis by simp
qed



text \<open>
  C6. Whenever the validator answers invalid, a category was inferred, the suggestion is
  the price clamped into the typical band of that category, and the suggestion lies within
  the hard bounds of that category. (Without a category the validator never answers
  invalid.)
\<close>

theorem validatePriceByCategory_suggestion:
  "\<not> isValid (validatePriceByCategory p productName platform) \<Longrightarrow>
   \<exists>detectedType rng.
     detect_type validationRanges (toLowerCase productName) = Some (detectedType, rng) \<and>
     suggestedPrice (validatePriceByCategory p productName platform)
       = Some (min (max p (min_r (typical rng))) (max_r (typical rng))) \<and>
     min_r rng \<le> min (max p (min_r (typical rng))) (max_r (typical rng)) \<and>
     min (max p (min_r (typical rng))) (max_r (typical rng)) \<le> max_r rng"
proof -
  assume inv: "\<not> isValid (validatePriceByCategory p productName platform)"
  then obtain t r where d: "detect_type validationRanges (toLowerCase productName) = Some (t, r)"
    by (cases "detect_type validationRanges (toLowerCase productName)")
       (auto simp: validatePriceByCategory_def)
  from inv d have s: "suggestedPrice (validatePriceByCategory p productName platform)
       = Some (min (max p (min_r (typical r))) (max_r (typical r)))"
    by (auto simp: validatePriceByCategory_def split: if_splits)
  from detect_type_sound [OF d] have "sound_validation r" .
  then have "min_r r \<le> min (max p (min_r (typical r))) (max_r (typical r))"
    "min (max p (min_r (typical r))) (max_r (typical r)) \<le> max_r r"
    by (auto simp: sound_validation_def)
  with d s show ?thesis by blast
qed

theorem validatePriceByCategory_suggestion_witness:
  "\<not> isValid (validatePriceByCategory 500 (lit ''Phone'') (lit ''Amazon'')) \<and>
   (\<exists>detectedType rng.
     detect_type validationRanges (toLowerCase (lit ''Phone'')) = Some (detectedType, rng) \<and>
     suggestedPrice (validatePriceByCategory 500 (lit ''Phone'') (lit ''Amazon''))
       = Some (min (max 500 (min_r (typical rng))) (max_r (typical rng))) \<and>
     min_r rng \<le> min (max 500 (min_r (typical rng))) (max_r (typical rng)) \<and>
     min (max 500 (min_r (typical rng))) (max_r (typical rng)) \<le> max_r rng)"
proof -
  have inv: "\<not> isValid (validatePriceByCategory 500 (lit ''Phone'') (lit ''Amazon''))"
    by (simp add: validate_cheap_phone)
  from validatePriceByCategory_suggestion [OF inv] inv show ?thesis
    by blast
qed

text \<open>
  C7, as amended. The normalizer and the validator return a number that is never
  negative; 0 stands for the absence of a price (an empty text for the normalizer, a price
  that is not positive for the validator), and the validator returns a positive number for
  every positive price.
\<close>

theorem price_zero_or_positive:
  "0 \<le> extractPrice t \<and> extractPrice [] = 0 \<and>
   0 \<le> validateAndNormalizePrice p n pl \<and>
   (p \<le> 0 \<longrightarrow> validateAndNormalizePrice p n pl = 0) \<and>
   (0 < p \<longrightarrow> 0 < validateAndNormalizePrice p n pl)"
proof -
  have "0 \<le> validateAndNormalizePrice p n pl \<and> (0 < p \<longrightarrow> 0 < validateAndNormalizePrice p n pl)"
    using validateAndNormalizePrice_pos [of p n pl] validateAndNormalizePrice_nonpos [of p n pl]
    by (cases "0 < p") auto
  then show ?thesis
    using extractPrice_nonneg [of t] validateAndNormalizePrice_nonpos [of p n pl]
    by (simp add: extractPrice_def)
qed

theorem price_zero_or_positive_witness:
  "extractPrice (lit ''Rs. 999'') = 999 \<and> (0::real) < 999 \<and>
   0 < validateAndNormalizePrice 999 (lit ''Phone'') (lit ''Amazon'') \<and>
   (-1::real) \<le> 0 \<and> validateAndNormalizePrice (-1) (lit ''Phone'') (lit ''Amazon'') = 0"
  using price_zero_or_positive [of "lit ''Rs. 999''" 999 "lit ''Phone''" "lit ''Amazon''"]
    price_zero_or_positive [of "lit ''Rs. 999''" "-1" "lit ''Phone''" "lit ''Amazon''"]
    extractPrice_rs
  by simp

text \<open>
  The claim as stated fails: a text without a price and a price text that reads zero both
  yield the number 0, and the validator passes the missing price 0 on as 0.
\<close>

theorem absence_is_zero:
  "extractPrice (lit ''out of stock'') = 0 \<and> extractPrice (rupee # lit ''0'') = 0 \<and>
   validateAndNormalizePrice 0 (lit ''Phone'') (lit ''Amazon'') = 0"
  using extractPrice_no_digits extractPrice_rupee_zero
  by (simp add: validateAndNormalizePrice_def)

text \<open>
  C8, as amended. The extractors of Amazon and of Flipkart return absent whenever no
  product name or no price above 0 could be read from the page. The extractor for every
  other platform never returns absent: without a name it names the product
  \<^verbatim>\<open>Product\<close>, and without a price it takes the estimate for the name it read.
\<close>

theorem extractors_absent:
  "((amazon_name p = [] \<or>
       (\<forall>sel \<in> set amazon_price_selectors. extractPrice (text_first p sel) = 0)) \<longrightarrow>
      extractAmazonData p url = None) \<and>
   ((flipkart_name p = [] \<or>
       (\<forall>sel \<in> set flipkart_price_selectors. extractPrice (text_first p sel) = 0)) \<longrightarrow>
      extractFlipkartData p url = None) \<and>
   (\<exists>d. extractGenericData p url platform = Some d \<and>
      (generic_name p = [] \<longrightarrow> pd_name d = lit ''Product'') \<and>
      ((\<forall>sel \<in> set generic_price_selectors. extractPrice (text_first p sel) = 0) \<longrightarrow>
         pd_price d = validateAndNormalizePrice (generateReasonablePrice (generic_name p))
                        (name_or_Product (generic_name p)) platform))"
proof -
  have amazon: "extractAmazonData p url = None"
    if "amazon_name p = [] \<or>
        (\<forall>sel \<in> set amazon_price_selectors. extractPrice (text_first p sel) = 0)"
    using that extractAmazonData_None [of p url]
    by (simp add: find_price_zero_iff)
  have flipkart: "extractFlipkartData p url = None"
    if "flipkart_name p = [] \<or>
        (\<forall>sel \<in> set flipkart_price_selectors. extractPrice (text_first p sel) = 0)"
    using that extractFlipkartData_None [of p url]
    by (simp add: find_price_zero_iff)
  have generic: "\<exists>d. extractGenericData p url platform = Some d \<and>
      (generic_name p = [] \<longrightarrow> pd_name d = lit ''Product'') \<and>
      ((\<forall>sel \<in> set generic_price_selectors. extractPrice (text_first p sel) = 0) \<longrightarrow>
         pd_price d = validateAndNormalizePrice (generateReasonablePrice (generic_name p))
                        (name_or_Product (generic_name p)) platform)"
    by (simp add: extractGenericData_def Let_def name_or_Product_def
          find_price_zero_iff [symmetric])
  from amazon flipkart generic show ?thesis
    by blast
qed

theorem extractors_absent_witness:
  "amazon_name empty_page = [] \<and> extractAmazonData empty_page speaker_url = None \<and>
   flipkart_name empty_page = [] \<and> extractFlipkartData empty_page speaker_url = None \<and>
   (\<exists>d. extractGenericData empty_page speaker_url (lit ''Myntra'') = Some d \<and>
      pd_name d = lit ''Product'' \<and> pd_price d = 500)"
proof -
  have names: "amazon_name empty_page = []" "flipkart_name empty_page = []"
    "generic_name empty_page = []"
    by (simp_all add: amazon_name_def flipkart_name_def generic_name_def text_all_def
          text_first_def empty_page_def trim_def)
  have prices: "\<forall>sel \<in> set generic_price_selectors. extractPrice (text_first empty_page sel) = 0"
    by (simp add: text_first_def empty_page_def trim_def extractPrice_def)
  from extractors_absent [of empty_page speaker_url "lit ''Myntra''"] names prices
  show ?thesis
    by (auto simp: name_or_Product_def generateReasonablePrice_empty validate_estimate_Product)
qed

text \<open>
  The claim as stated fails on a platform without an extractor of its own: from a page
  that shows neither a name nor a price the generic extractor makes a product named
  \<^verbatim>\<open>Product\<close> with the estimated price 500.
\<close>

theorem extractGenericData_fabricates:
  "generic_name empty_page = [] \<and> find_price empty_page generic_price_selectors = 0 \<and>
   extractGenericData empty_page (lit ''https://www.myntra.com/item'') (lit ''Myntra'') =
     Some \<lparr>pd_name = lit ''Product'', pd_price = 500, pd_originalPrice = None,
           pd_discountPercentage = None, pd_discountAmount = None, pd_rating = None,
           pd_reviewCount = None, pd_availability = lit ''Available'',
           pd_features = [lit ''Myntra'' @ lit '' product''], pd_platform = lit ''Myntra'',
           pd_url = lit ''https://www.myntra.com/item''\<rparr>"
  using empty_page_generic [of generic_price_selectors generic_mrp_selectors 0]
  by (simp add: extractGenericData_def name_or_Product_def generateReasonablePrice_empty
        validate_estimate_Product validated_original_def calculateDiscount_def)

text \<open>
  C9, as amended. For a product with a well-formed name the records of the result are
  those of the platforms that \<^verbatim>\<open>getRelevantPlatforms\<close> lists for the category of the
  product, in that order: Amazon first, Flipkart second, then the platforms of the
  category. No record is added for the platform the product came from. Only the branch
  for a response without market data, which the generator never gives, puts the record of
  the original product first.
\<close>

theorem comparison_platforms:
  "(case originalProduct of Some p \<Rightarrow> Some p
    | None \<Rightarrow> fst (analyzeProductFromUrl h k url)) = Some product \<Longrightarrow>
   isWellFormed (pd_name product) \<Longrightarrow>
   map pc_platform (getRealPriceComparisons h k originalProduct url)
     = map fst (getRelevantPlatforms (info_category (extractProductInfo (pd_name product) url))) \<and>
   take 2 (map pc_platform (getRealPriceComparisons h k originalProduct url))
     = [lit ''Amazon'', lit ''Flipkart''] \<and>
   (\<forall>k' cs. fallback_comparisons h k' product = Some cs \<longrightarrow>
      cs \<noteq> [] \<and> pc_platform (hd cs) = pd_platform product)"
proof -
  assume res: "(case originalProduct of Some p \<Rightarrow> Some p
    | None \<Rightarrow> fst (analyzeProductFromUrl h k url)) = Some product"
    and wf: "isWellFormed (pd_name product)"
  from comparisons_of_product(1) [OF res wf]
  have "map pc_platform (getRealPriceComparisons h k originalProduct url)
     = map fst (getRelevantPlatforms (info_category (extractProductInfo (pd_name product) url)))" .
  moreover from this
  have "take 2 (map pc_platform (getRealPriceComparisons h k originalProduct url))
     = [lit ''Amazon'', lit ''Flipkart'']"
    by (simp only: getRelevantPlatforms_first_two)
  ultimately show ?thesis
    using fallback_comparisons_first [of h _ product] by blast
qed

theorem comparison_platforms_witness:
  "isWellFormed (pd_name galaxy) \<and> pd_platform galaxy = lit ''Flipkart'' \<and>
   map pc_platform (getRealPriceComparisons dead_host 0 (Some galaxy) (pd_url galaxy))
     = [lit ''Amazon'', lit ''Flipkart'', lit ''Croma'', lit ''Reliance Digital'']"
proof -
  have wf: "isWellFormed (pd_name galaxy)"
    by (simp add: galaxy_def galaxy_wf)
  have res: "(case Some galaxy of Some p \<Rightarrow> Some p
    | None \<Rightarrow> fst (analyzeProductFromUrl dead_host 0 (pd_url galaxy))) = Some galaxy"
    by simp
  have cat: "info_category (extractProductInfo (pd_name galaxy) (pd_url galaxy)) = lit ''electronics''"
    by (simp add: galaxy_def galaxy_category)
  from comparison_platforms [OF res wf]
  have "map pc_platform (getRealPriceComparisons dead_host 0 (Some galaxy) (pd_url galaxy))
     = map fst (getRelevantPlatforms (lit ''electronics''))"
    by (simp only: cat)
  then have "map pc_platform (getRealPriceComparisons dead_host 0 (Some galaxy) (pd_url galaxy))
     = [lit ''Amazon'', lit ''Flipkart'', lit ''Croma'', lit ''Reliance Digital'']"
    by (simp add: getRelevantPlatforms_def lit_def)
  moreover have "pd_platform galaxy = lit ''Flipkart''"
    by (simp add: galaxy_def)
  ultimately show ?thesis
    using wf by simp
qed

text \<open>
  The claim as stated fails: for a lipstick found on Nykaa the result holds a record for
  Amazon and one for Flipkart, and none for Nykaa.
\<close>

theorem original_platform_missing:
  "pd_platform lipstick = lit ''Nykaa'' \<and>
   map pc_platform (getRealPriceComparisons dead_host 0 (Some lipstick) (pd_url lipstick))
     = [lit ''Amazon'', lit ''Flipkart''] \<and>
   lit ''Nykaa'' \<notin> set (map pc_platform
      (getRealPriceComparisons dead_host 0 (Some lipstick) (pd_url lipstick)))"
proof -
  have wf: "isWellFormed (pd_name lipstick)"
    by (simp add: lipstick_def lipstick_wf)
  have res: "(case Some lipstick of Some p \<Rightarrow> Some p
    | None \<Rightarrow> fst (analyzeProductFromUrl dead_host 0 (pd_url lipstick))) = Some lipstick"
    by simp
  have cat: "info_category (extractProductInfo (pd_name lipstick) (pd_url lipstick)) = lit ''general''"
    by (simp add: lipstick_def lipstick_category)
  have "map pc_platform (getRealPriceComparisons dead_host 0 (Some lipstick) (pd_url lipstick))
     = [lit ''Amazon'', lit ''Flipkart'']"
    using comparisons_of_product(1) [OF res wf] by (simp add: cat getRelevantPlatforms_def lit_def)
  then show ?thesis
    by (simp add: lipstick_def lit_def)
qed

text \<open>
  C10. \<^verbatim>\<open>validateAndNormalizePrice\<close> returns 0 for a price that is not positive and a
  value within the absolute bounds 10 and 500000 for every positive price.
\<close>

theorem validateAndNormalizePrice_bounds:
  "(p \<le> 0 \<longrightarrow> validateAndNormalizePrice p n pl = 0) \<and>
   (0 < p \<longrightarrow> 10 \<le> validateAndNormalizePrice p n pl \<and> validateAndNormalizePrice p n pl \<le> 500000)"
  using validateAndNormalizePrice_pos [of p n pl] validateAndNormalizePrice_nonpos [of p n pl]
  by simp

theorem validateAndNormalizePrice_bounds_witness:
  "(0::real) < 500 \<and> validateAndNormalizePrice 500 (lit ''Phone'') (lit ''Amazon'') = 8000 \<and>
   (0::real) \<le> 0 \<and> validateAndNormalizePrice 0 (lit ''Phone'') (lit ''Amazon'') = 0"
  using validateAndNormalizePrice_bounds [of 500 "lit ''Phone''" "lit ''Amazon''"]
    validateAndNormalizePrice_bounds [of 0 "lit ''Phone''" "lit ''Amazon''"]
  by (simp add: validateAndNormalizePrice_def validate_cheap_phone)

end
